theory Spec2Isabelle
  imports Complex_Main "HOL-Library.AList"
begin

section \<open>Magtogoek: ADCP loader, quality control and logger\<close>

text \<open>
  A shallow embedding of \<^verbatim>\<open>magtogoek/utils.py\<close> (class \<^verbatim>\<open>Logger\<close>),
  \<^verbatim>\<open>magtogoek/adcp/quality_control.py\<close> and the coordinate-system step of
  \<^verbatim>\<open>magtogoek/adcp/loader.py\<close>. Python exceptions are values of type \<open>error\<close>;
  a function that can raise returns \<open>error + 'a\<close>. Mutation of the dataset and of the
  module-level logger is explicit state passing.
\<close>

subsection \<open>Exceptions\<close>

datatype error =
  AttributeError | KeyError | ValueError | IndexError | UnboundLocalError | TypeError
  | CoordinateSystemError

definition bind_e :: "error + 'a \<Rightarrow> ('a \<Rightarrow> error + 'b) \<Rightarrow> error + 'b" where
  "bind_e m f = (case m of Inl e \<Rightarrow> Inl e | Inr x \<Rightarrow> f x)"

subsection \<open>Floating-point values\<close>

text \<open>
  A float64 cell is a finite number, one of the two infinities or not-a-number. Finite
  values are carried as reals: the comparisons the tests make are exact on floats, and the
  results below do not depend on the rounding of an arithmetic operation.
\<close>

datatype fval = Fin real | PInf | NInf | NaN

fun isfinite :: "fval \<Rightarrow> bool" where
  "isfinite (Fin r) = True"
| "isfinite PInf = False"
| "isfinite NInf = False"
| "isfinite NaN = False"

text \<open>IEEE comparison \<^verbatim>\<open>a < b\<close>: false as soon as one side is not-a-number.\<close>

fun flt :: "fval \<Rightarrow> fval \<Rightarrow> bool" where
  "flt (Fin a) (Fin b) = (a < b)"
| "flt (Fin a) PInf = True"
| "flt NInf (Fin b) = True"
| "flt NInf PInf = True"
| "flt NaN b = False"
| "flt a NaN = False"
| "flt PInf b = False"
| "flt a NInf = False"

definition fgt :: "fval \<Rightarrow> fval \<Rightarrow> bool" where
  "fgt a b = flt b a"

fun fneg :: "fval \<Rightarrow> fval" where
  "fneg (Fin r) = Fin (- r)"
| "fneg PInf = NInf"
| "fneg NInf = PInf"
| "fneg NaN = NaN"

fun fabs :: "fval \<Rightarrow> fval" where
  "fabs (Fin r) = Fin \<bar>r\<bar>"
| "fabs PInf = PInf"
| "fabs NInf = PInf"
| "fabs NaN = NaN"

fun fadd :: "fval \<Rightarrow> fval \<Rightarrow> fval" where
  "fadd (Fin a) (Fin b) = Fin (a + b)"
| "fadd NaN b = NaN"
| "fadd a NaN = NaN"
| "fadd PInf NInf = NaN"
| "fadd NInf PInf = NaN"
| "fadd PInf b = PInf"
| "fadd NInf b = NInf"
| "fadd a PInf = PInf"
| "fadd a NInf = NInf"

definition fsub :: "fval \<Rightarrow> fval \<Rightarrow> fval" where
  "fsub a b = fadd a (fneg b)"

fun fmul :: "fval \<Rightarrow> fval \<Rightarrow> fval" where
  "fmul (Fin a) (Fin b) = Fin (a * b)"
| "fmul NaN b = NaN"
| "fmul a NaN = NaN"
| "fmul (Fin a) PInf = (if a = 0 then NaN else if 0 < a then PInf else NInf)"
| "fmul (Fin a) NInf = (if a = 0 then NaN else if 0 < a then NInf else PInf)"
| "fmul PInf (Fin b) = (if b = 0 then NaN else if 0 < b then PInf else NInf)"
| "fmul NInf (Fin b) = (if b = 0 then NaN else if 0 < b then NInf else PInf)"
| "fmul PInf PInf = PInf"
| "fmul NInf NInf = PInf"
| "fmul PInf NInf = NInf"
| "fmul NInf PInf = NInf"

fun fsqrt :: "fval \<Rightarrow> fval" where
  "fsqrt (Fin r) = (if r < 0 then NaN else Fin (sqrt r))"
| "fsqrt PInf = PInf"
| "fsqrt NInf = NaN"
| "fsqrt NaN = NaN"

text \<open>\<^verbatim>\<open>np.cos(np.radians(a))\<close>: not-a-number outside the finite values.\<close>

fun fcos_deg :: "fval \<Rightarrow> fval" where
  "fcos_deg (Fin r) = Fin (cos (r * pi / 180))"
| "fcos_deg PInf = NaN"
| "fcos_deg NInf = NaN"
| "fcos_deg NaN = NaN"

text \<open>Truth value of a Python number or \<^verbatim>\<open>None\<close>: only \<^verbatim>\<open>None\<close> and zero are falsy.\<close>

fun truthy :: "fval option \<Rightarrow> bool" where
  "truthy None = False"
| "truthy (Some (Fin r)) = (r \<noteq> 0)"
| "truthy (Some x) = True"

subsection \<open>Arrays\<close>

text \<open>
  A depth-by-time array is a list of rows, one row per depth bin and one entry per time
  sample; a time series is a list. \<open>shape\<close> gives the length of every row.
\<close>

type_synonym 'a grid = "'a list list"

definition shape :: "'a grid \<Rightarrow> nat list" where
  "shape g = map length g"

definition has_shape :: "nat \<Rightarrow> nat \<Rightarrow> 'a grid \<Rightarrow> bool" where
  "has_shape nd nt g = (length g = nd \<and> list_all (\<lambda>row. length row = nt) g)"

definition cell :: "'a grid \<Rightarrow> nat \<Rightarrow> nat \<Rightarrow> 'a" where
  "cell g i j = g ! i ! j"

definition full :: "nat \<Rightarrow> nat \<Rightarrow> 'a \<Rightarrow> 'a grid" where
  "full nd nt x = replicate nd (replicate nt x)"

text \<open>\<^verbatim>\<open>np.tile(row, (nd, 1))\<close>\<close>

definition tile :: "nat \<Rightarrow> 'a list \<Rightarrow> 'a grid" where
  "tile nd row = replicate nd row"

definition map2d :: "('a \<Rightarrow> 'b) \<Rightarrow> 'a grid \<Rightarrow> 'b grid" where
  "map2d f g = map (map f) g"

definition zip2d :: "('a \<Rightarrow> 'b \<Rightarrow> 'c) \<Rightarrow> 'a grid \<Rightarrow> 'b grid \<Rightarrow> 'c grid" where
  "zip2d f a b = map2 (map2 f) a b"

definition imap2d :: "(nat \<Rightarrow> nat \<Rightarrow> 'a \<Rightarrow> 'b) \<Rightarrow> 'a grid \<Rightarrow> 'b grid" where
  "imap2d f g =
     map (\<lambda>(i, row). map (\<lambda>(j, x). f i j x) (enumerate 0 row)) (enumerate 0 g)"

text \<open>
  \<^verbatim>\<open>a[mask] = v\<close> with a boolean mask: numpy raises IndexError unless the mask has the
  shape of the array.
\<close>

definition mask_set :: "bool grid \<Rightarrow> 'a \<Rightarrow> 'a grid \<Rightarrow> error + 'a grid" where
  "mask_set m v g =
     (if shape m = shape g then Inr (zip2d (\<lambda>b x. if b then v else x) m g)
      else Inl IndexError)"

definition mask_set1 :: "bool list \<Rightarrow> 'a \<Rightarrow> 'a list \<Rightarrow> error + 'a list" where
  "mask_set1 m v xs =
     (if length m = length xs then Inr (map2 (\<lambda>b x. if b then v else x) m xs)
      else Inl IndexError)"

text \<open>\<^verbatim>\<open>xr.DataArray.where(cond)\<close>: the value where the condition holds, else not-a-number.\<close>

definition where_nan :: "fval grid \<Rightarrow> bool grid \<Rightarrow> fval grid" where
  "where_nan g m = zip2d (\<lambda>x b. if b then x else NaN) g m"

text \<open>
  An array of depth-by-time shape combined in place with a time series, the series
  broadcast across depth.
\<close>

definition rows_with :: "(fval \<Rightarrow> fval \<Rightarrow> fval) \<Rightarrow> fval grid \<Rightarrow> fval list \<Rightarrow> error + fval grid" where
  "rows_with f g xs =
     (if list_all (\<lambda>row. length row = length xs) g then Inr (map (\<lambda>row. map2 f row xs) g)
      else Inl ValueError)"

text \<open>
  \<^verbatim>\<open>bool(a)\<close> of a numpy array: the element of a one-element array, \<^verbatim>\<open>False\<close> (with a
  deprecation warning) for an empty one, ValueError for more than one element.
\<close>

definition array_truth :: "bool grid \<Rightarrow> error + bool" where
  "array_truth g =
     (case concat g of [] \<Rightarrow> Inr False | [x] \<Rightarrow> Inr x | x # y # zs \<Rightarrow> Inl ValueError)"

text \<open>
  \<^verbatim>\<open>np.bitwise_or(x1, x2, x3)\<close>: a ufunc of two inputs takes its third positional
  argument as \<^verbatim>\<open>out\<close>, so the result is \<^verbatim>\<open>x1 | x2\<close>, written into and returned as
  \<^verbatim>\<open>x3\<close>; the content of \<^verbatim>\<open>x3\<close> is not read.
\<close>

definition bitwise_or3 :: "bool grid \<Rightarrow> bool grid \<Rightarrow> bool grid \<Rightarrow> error + bool grid" where
  "bitwise_or3 x1 x2 out =
     (if shape x1 = shape x2 \<and> shape x2 = shape out then Inr (zip2d (\<or>) x1 x2)
      else Inl ValueError)"

fun fold_e :: "('a \<Rightarrow> 's \<Rightarrow> error + 's) \<Rightarrow> 'a list \<Rightarrow> 's \<Rightarrow> error + 's" where
  "fold_e f [] s = Inr s"
| "fold_e f (x # xs) s = bind_e (f x s) (fold_e f xs)"

subsection \<open>The dataset\<close>

text \<open>
  An \<^verbatim>\<open>xarray.Dataset\<close> as the loader builds it (\<^verbatim>\<open>init_dataset\<close>): the coordinates
  \<^verbatim>\<open>depth\<close> and \<^verbatim>\<open>time\<close>, named variables in insertion order, each with its data and
  its own attributes, and the global attributes. Data is a time series (\<open>D1\<close>), a
  depth-by-time array of floats (\<open>D2\<close>) or of integers (\<open>I2\<close>, the flag grids).
\<close>

datatype attr = AStr string | ANum fval | AInts "int list" | AStrs "string list"

datatype vdata = D1 "fval list" | D2 "fval grid" | I2 "int grid"

datatype variable = Var (vdata: vdata) (vattrs: "(string \<times> attr) list")

record dataset =
  depth :: "fval list"
  time :: "int list"
  vars :: "(string \<times> variable) list"
  attrs :: "(string \<times> attr) list"

text \<open>\<^verbatim>\<open>name in dataset\<close>: a data variable or a coordinate.\<close>

definition in_dataset :: "dataset \<Rightarrow> string \<Rightarrow> bool" where
  "in_dataset ds n = (map_of (vars ds) n \<noteq> None \<or> n = ''depth'' \<or> n = ''time'')"

text \<open>
  \<^verbatim>\<open>dataset[n]\<close> (KeyError when absent) or \<^verbatim>\<open>dataset.n\<close> (AttributeError when absent),
  read as a depth-by-time float array or as a time series; the error to raise is \<open>e\<close>.
\<close>

definition grid_of :: "error \<Rightarrow> dataset \<Rightarrow> string \<Rightarrow> error + fval grid" where
  "grid_of e ds n =
     (case map_of (vars ds) n of
        None \<Rightarrow> Inl e
      | Some (Var (D2 g) a) \<Rightarrow> Inr g
      | Some (Var (D1 xs) a) \<Rightarrow> Inl TypeError
      | Some (Var (I2 g) a) \<Rightarrow> Inl TypeError)"

definition series_of :: "error \<Rightarrow> dataset \<Rightarrow> string \<Rightarrow> error + fval list" where
  "series_of e ds n =
     (case map_of (vars ds) n of
        None \<Rightarrow> Inl e
      | Some (Var (D1 xs) a) \<Rightarrow> Inr xs
      | Some (Var (D2 g) a) \<Rightarrow> Inl TypeError
      | Some (Var (I2 g) a) \<Rightarrow> Inl TypeError)"

text \<open>New data for a variable that exists; its attributes stay.\<close>

definition set_data :: "string \<Rightarrow> vdata \<Rightarrow> dataset \<Rightarrow> dataset" where
  "set_data n d ds =
     (case map_of (vars ds) n of
        None \<Rightarrow> ds
      | Some v \<Rightarrow> ds\<lparr>vars := AList.update n (Var d (vattrs v)) (vars ds)\<rparr>)"

text \<open>\<^verbatim>\<open>dataset[n] = (dims, data)\<close>: a fresh variable without attributes.\<close>

definition new_var :: "string \<Rightarrow> vdata \<Rightarrow> dataset \<Rightarrow> dataset" where
  "new_var n d ds = ds\<lparr>vars := AList.update n (Var d []) (vars ds)\<rparr>"

text \<open>\<^verbatim>\<open>dataset[n].attrs[k] = a\<close>\<close>

definition set_vattr :: "string \<Rightarrow> string \<Rightarrow> attr \<Rightarrow> dataset \<Rightarrow> dataset" where
  "set_vattr n k a ds =
     (case map_of (vars ds) n of
        None \<Rightarrow> ds
      | Some v \<Rightarrow> ds\<lparr>vars := AList.update n (Var (vdata v) (AList.update k a (vattrs v))) (vars ds)\<rparr>)"

definition set_attr :: "string \<Rightarrow> attr \<Rightarrow> dataset \<Rightarrow> dataset" where
  "set_attr k a ds = ds\<lparr>attrs := AList.update k a (attrs ds)\<rparr>"

text \<open>
  The shapes \<^verbatim>\<open>xarray\<close> enforces on every variable, and the axes \<^verbatim>\<open>init_dataset\<close>
  gives the variables the quality control reads: depth-by-time for the velocities and
  the beam channels, time for the others.
\<close>

definition wf_var :: "nat \<Rightarrow> nat \<Rightarrow> variable \<Rightarrow> bool" where
  "wf_var nd nt v =
     (case vdata v of
        D1 xs \<Rightarrow> length xs = nt
      | D2 g \<Rightarrow> has_shape nd nt g
      | I2 g \<Rightarrow> has_shape nd nt g)"

definition grid_names :: "string list" where
  "grid_names = [''u'', ''v'', ''w'', ''e'', ''pg'', ''amp1'', ''amp2'', ''amp3'', ''amp4'',
     ''corr1'', ''corr2'', ''corr3'', ''corr4'', ''vb_vel'', ''vb_amp'', ''vb_corr'', ''vb_pg'']"

definition is_D2 :: "variable \<Rightarrow> bool" where
  "is_D2 v = (case vdata v of D2 g \<Rightarrow> True | D1 xs \<Rightarrow> False | I2 g \<Rightarrow> False)"

definition is_D1 :: "variable \<Rightarrow> bool" where
  "is_D1 v = (case vdata v of D1 xs \<Rightarrow> True | D2 g \<Rightarrow> False | I2 g \<Rightarrow> False)"

definition series_names :: "string list" where
  "series_names = [''lon'', ''lat'', ''roll_'', ''pitch'', ''heading'', ''bt_u'', ''bt_v'',
     ''bt_w'', ''bt_e'', ''bt_depth'', ''xducer_depth'', ''temp'', ''temperature'', ''pres'',
     ''u_ship'', ''v_ship'']"

definition wf_dataset :: "dataset \<Rightarrow> bool" where
  "wf_dataset ds =
     list_all (\<lambda>(n, v). wf_var (length (depth ds)) (length (time ds)) v
                \<and> (n \<in> set grid_names \<longrightarrow> is_D2 v)
                \<and> (n \<in> set series_names \<longrightarrow> is_D1 v)) (vars ds)"


subsection \<open>The logger of \<^verbatim>\<open>utils.py\<close>\<close>

text \<open>
  \<^verbatim>\<open>Logger\<close> has the fields \<^verbatim>\<open>logbook\<close>, \<^verbatim>\<open>w_count\<close> and \<^verbatim>\<open>level\<close>. The field
  \<open>printed\<close> is the console: the lines \<^verbatim>\<open>print\<close>, \<^verbatim>\<open>click.echo\<close> and
  \<^verbatim>\<open>click.secho\<close> have written so far. A message is a string or a list of messages
  (\<^verbatim>\<open>isinstance(msg, list)\<close>). The argument \<open>ts\<close> is what \<^verbatim>\<open>_timestamp()\<close> reads
  from the clock.
\<close>

record logger =
  logbook :: string
  w_count :: nat
  level :: int
  printed :: "string list"

datatype message = Msg string | Msgs "message list"

definition newline :: string where
  "newline = [CHR 0x0A]"

definition Logger_init :: "string \<Rightarrow> int \<Rightarrow> logger" where
  "Logger_init lb lv = \<lparr>logbook = lb, w_count = 0, level = lv, printed = []\<rparr>"

definition Logger_section :: "string \<Rightarrow> bool \<Rightarrow> string \<Rightarrow> logger \<Rightarrow> logger" where
  "Logger_section ts t sec lg =
     (let time = (if \<not> t then [] else '' '' @ ts);
          lg1 = lg\<lparr>logbook := logbook lg @ ''['' @ sec @ '']'' @ time @ newline\<rparr>
      in if level lg1 < 1 then lg1\<lparr>printed := printed lg1 @ [sec]\<rparr> else lg1)"

fun Logger_log :: "string \<Rightarrow> bool \<Rightarrow> message \<Rightarrow> logger \<Rightarrow> logger" where
  "Logger_log ts t (Msgs ms) lg = fold (Logger_log ts t) ms lg"
| "Logger_log ts t (Msg msg) lg =
     (let lg1 = (if level lg < 1 then lg\<lparr>printed := printed lg @ [msg]\<rparr> else lg);
          msg1 = (if \<not> t then msg else ts @ '' '' @ msg)
      in lg1\<lparr>logbook := logbook lg1 @ '' '' @ msg1 @ newline\<rparr>)"

fun Logger_warning :: "string \<Rightarrow> bool \<Rightarrow> message \<Rightarrow> logger \<Rightarrow> logger" where
  "Logger_warning ts t (Msgs ms) lg = fold (Logger_warning ts t) ms lg"
| "Logger_warning ts t (Msg msg) lg =
     (let lg1 = (if level lg < 2
                 then lg\<lparr>printed := printed lg @ [''WARNING:'' @ msg],
                         w_count := w_count lg + 1\<rparr>
                 else lg);
          msg1 = (if \<not> t then msg else ts @ '' '' @ msg)
      in lg1\<lparr>logbook := logbook lg1 @ '' '' @ msg1 @ newline\<rparr>)"

definition Logger_reset :: "logger \<Rightarrow> logger" where
  "Logger_reset lg = lg\<lparr>logbook := [], w_count := 0\<rparr>"

subsection \<open>What the quality control takes from outside\<close>

text \<open>
  \<open>circmean\<close> is \<^verbatim>\<open>scipy.stats.circmean(x, low=-180, high=180)\<close> and
  \<open>circular_distance\<close> is \<^verbatim>\<open>magtogoek.tools.circular_distance(x, mean, units="deg")\<close> at
  one sample. \<open>uninit\<close> is the content of the cells that \<^verbatim>\<open>np.greater(..., where=m)\<close>
  leaves unwritten where \<^verbatim>\<open>m\<close> is false (no \<^verbatim>\<open>out\<close> is given, so they are whatever the
  fresh array holds), per test and cell. \<open>str_num\<close> is how an f-string prints a
  threshold, \<open>today\<close> is \<^verbatim>\<open>Timestamp.now().strftime("%Y-%m-%d")\<close>.
\<close>

record env =
  circmean :: "fval list \<Rightarrow> fval"
  circular_distance :: "fval \<Rightarrow> fval \<Rightarrow> fval"
  uninit :: "string \<Rightarrow> nat \<Rightarrow> nat \<Rightarrow> bool"
  str_num :: "fval \<Rightarrow> string"
  today :: string

definition digit_char :: "nat \<Rightarrow> char" where
  "digit_char d = char_of (48 + d)"

fun str_nat :: "nat \<Rightarrow> string" where
  "str_nat n = (if n < 10 then [digit_char n] else str_nat (n div 10) @ [digit_char (n mod 10)])"

declare str_nat.simps [simp del]

subsection \<open>Motion correction\<close>

text \<open>\<^verbatim>\<open>dataset[field] -= dataset[f"bt_{field}"].values\<close>\<close>

definition bt_correct :: "string \<Rightarrow> dataset \<Rightarrow> error + dataset" where
  "bt_correct field ds =
     bind_e (grid_of KeyError ds field) (\<lambda>g.
     bind_e (series_of KeyError ds (''bt_'' @ field)) (\<lambda>bt.
     bind_e (rows_with fsub g bt) (\<lambda>g'.
     Inr (set_data field (D2 g') ds))))"

text \<open>
  One round of the \<^verbatim>\<open>nav\<close> loop: the ship velocity, zero where the longitude is not
  finite, is added across depth; then \<^verbatim>\<open>dataset[f"{field}ship"].values\<close> is assigned the
  corrected array, which needs a variable of that name and of that shape.
\<close>

definition nav_correct :: "string \<Rightarrow> dataset \<times> logger \<Rightarrow> error + dataset \<times> logger" where
  "nav_correct field s =
     (case s of (ds, lg) \<Rightarrow>
     bind_e (grid_of KeyError ds field) (\<lambda>g.
     bind_e (series_of KeyError ds (field @ ''_ship'')) (\<lambda>ship.
     bind_e (series_of AttributeError ds ''lon'') (\<lambda>lon.
     bind_e (if length ship = length lon then Inr (map2 (\<lambda>x c. if isfinite c then x else Fin 0) ship lon)
             else Inl ValueError) (\<lambda>ship0.
     bind_e (rows_with fadd g ship0) (\<lambda>g'.
     (let ds1 = set_data field (D2 g') ds in
      case map_of (vars ds1) (field @ ''ship'') of
        None \<Rightarrow> Inl KeyError
      | Some v \<Rightarrow>
          (case vdata v of
             D2 old \<Rightarrow>
               if shape old = shape g'
               then Inr (set_data (field @ ''ship'') (D2 g') ds1,
                         Logger_log [] False (Msg ''Motion correction carried out with navigation'') lg)
               else Inl ValueError
           | D1 xs \<Rightarrow> Inl ValueError
           | I2 old \<Rightarrow> Inl ValueError))))))))"

definition motion_correction :: "dataset \<Rightarrow> logger \<Rightarrow> string \<Rightarrow> error + dataset \<times> logger" where
  "motion_correction ds lg mode =
     (if mode = ''bt'' then
        (if list_all (\<lambda>v. in_dataset ds (''bt_'' @ v)) [''u'', ''v'', ''w''] then
           bind_e (fold_e bt_correct [''u'', ''v'', ''w''] ds) (\<lambda>ds'.
           Inr (ds', Logger_log [] False (Msg ''Motion correction carried out with bottom track'') lg))
         else
           Inr (ds, Logger_warning [] False
                  (Msg ''Motion correction aborded. Bottom velocity (bt_u, bt_v, bt_w) missing'') lg))
      else if mode = ''nav'' then
        (if list_all (\<lambda>v. in_dataset ds (v @ ''_ship'')) [''u'', ''v''] then
           fold_e nav_correct [''u'', ''v''] (ds, lg)
         else
           Inr (ds, Logger_warning [] False
                  (Msg ''Motion correction aborded. Navigation velocity (u_ship, v_ship) missing'') lg))
      else
        Inr (ds, Logger_warning [] False
               (Msg (''Motion correction aborded. Motion correction mode invalid. ''
                     @ [CHR 0x28, CHR 0x27] @ ''bt'' @ [CHR 0x27] @ '' or '' @ [CHR 0x27] @ ''nav''
                     @ [CHR 0x27, CHR 0x29])) lg))"

subsection \<open>Implausible velocities\<close>

definition IMPLAUSIBLE_VEL_TRESHOLD :: fval where
  "IMPLAUSIBLE_VEL_TRESHOLD = Fin 15"

text \<open>
  One round of the loop of \<^verbatim>\<open>set_implausible_vel_to_nan\<close>: the mask of the component
  \<open>v\<close>, then \<^verbatim>\<open>where(plausible)\<close> on each of \<^verbatim>\<open>u\<close>, \<^verbatim>\<open>v\<close>, \<^verbatim>\<open>w\<close>.
\<close>

text \<open>\<^verbatim>\<open>(x > -thres) & (x < thres)\<close> at one cell.\<close>

definition plausible_at :: "fval \<Rightarrow> fval \<Rightarrow> bool" where
  "plausible_at thres x = (fgt x (fneg thres) \<and> flt x thres)"

definition plausible_mask :: "fval \<Rightarrow> fval grid \<Rightarrow> bool grid" where
  "plausible_mask thres g = map2d (plausible_at thres) g"

definition mask_component :: "bool grid \<Rightarrow> string \<Rightarrow> dataset \<Rightarrow> error + dataset" where
  "mask_component plausible c ds =
     bind_e (grid_of KeyError ds c) (\<lambda>g. Inr (set_data c (D2 (where_nan g plausible)) ds))"

definition implausible_round :: "fval \<Rightarrow> string \<Rightarrow> dataset \<Rightarrow> error + dataset" where
  "implausible_round thres v ds =
     bind_e (grid_of KeyError ds v) (\<lambda>g.
     fold_e (mask_component (plausible_mask thres g)) [''u'', ''v'', ''w''] ds)"

definition set_implausible_vel_to_nan :: "dataset \<Rightarrow> fval \<Rightarrow> error + dataset" where
  "set_implausible_vel_to_nan ds thres = fold_e (implausible_round thres) [''u'', ''v'', ''w''] ds"

subsection \<open>The tests\<close>

text \<open>
  Each test returns the mask of the failing cells. Where a test finds its variables
  missing, the source calls \<^verbatim>\<open>l.warnings(...)\<close>; the class \<^verbatim>\<open>Logger\<close> has the method
  \<^verbatim>\<open>warning\<close> and no attribute \<^verbatim>\<open>warnings\<close>, so that line raises AttributeError.
\<close>

definition below :: "fval \<Rightarrow> fval grid \<Rightarrow> bool grid" where
  "below threshold g = map2d (\<lambda>x. flt x threshold) g"

definition and4 :: "bool grid \<Rightarrow> bool grid \<Rightarrow> bool grid \<Rightarrow> bool grid \<Rightarrow> bool grid" where
  "and4 a b c d = zip2d (\<and>) (zip2d (\<and>) (zip2d (\<and>) a b) c) d"

definition correlation_test :: "dataset \<Rightarrow> fval \<Rightarrow> error + bool grid" where
  "correlation_test ds threshold =
     (if list_all (\<lambda>i. in_dataset ds (''corr'' @ i)) [''1'', ''2'', ''3'', ''4''] then
        bind_e (grid_of AttributeError ds ''corr1'') (\<lambda>c1.
        bind_e (grid_of AttributeError ds ''corr2'') (\<lambda>c2.
        bind_e (grid_of AttributeError ds ''corr3'') (\<lambda>c3.
        bind_e (grid_of AttributeError ds ''corr4'') (\<lambda>c4.
        Inr (and4 (below threshold c1) (below threshold c2)
                  (below threshold c3) (below threshold c4))))))
      else Inl AttributeError)"

definition amplitude_test :: "dataset \<Rightarrow> fval \<Rightarrow> error + bool grid" where
  "amplitude_test ds threshold =
     (if list_all (\<lambda>i. in_dataset ds (''amp'' @ i)) [''1'', ''2'', ''3'', ''4''] then
        bind_e (grid_of AttributeError ds ''amp1'') (\<lambda>a1.
        bind_e (grid_of AttributeError ds ''amp2'') (\<lambda>a2.
        bind_e (grid_of AttributeError ds ''amp3'') (\<lambda>a3.
        bind_e (grid_of AttributeError ds ''amp4'') (\<lambda>a4.
        Inr (and4 (below threshold a1) (below threshold a2)
                  (below threshold a3) (below threshold a4))))))
      else Inl AttributeError)"

definition percentgood_test :: "dataset \<Rightarrow> fval \<Rightarrow> error + bool grid" where
  "percentgood_test ds threshold =
     (if in_dataset ds ''pg'' then
        bind_e (grid_of AttributeError ds ''pg'') (\<lambda>pg. Inr (below threshold pg))
      else Inl AttributeError)"

definition from_mean :: "env \<Rightarrow> fval list \<Rightarrow> fval \<Rightarrow> bool list" where
  "from_mean ev xs thres = map (\<lambda>x. fgt (circular_distance ev x (circmean ev xs)) thres) xs"

definition roll_test :: "env \<Rightarrow> dataset \<Rightarrow> fval \<Rightarrow> error + bool list" where
  "roll_test ev ds thres =
     (if in_dataset ds ''roll_'' then
        bind_e (series_of AttributeError ds ''roll_'') (\<lambda>r. Inr (from_mean ev r thres))
      else Inl AttributeError)"

definition pitch_test :: "env \<Rightarrow> dataset \<Rightarrow> fval \<Rightarrow> error + bool list" where
  "pitch_test ev ds thres =
     (if in_dataset ds ''pitch'' then
        bind_e (series_of AttributeError ds ''pitch'') (\<lambda>r. Inr (from_mean ev r thres))
      else Inl AttributeError)"

text \<open>\<^verbatim>\<open>np.greater(x, thres, where=m)\<close>, the unwritten cells taken from \<open>uninit\<close>.\<close>

definition greater_where :: "env \<Rightarrow> string \<Rightarrow> fval \<Rightarrow> (fval \<times> bool) grid \<Rightarrow> bool grid" where
  "greater_where ev nm thres g =
     imap2d (\<lambda>i j (x, m). if m then fgt x thres else uninit ev nm i j) g"

definition horizontal_vel_test :: "env \<Rightarrow> dataset \<Rightarrow> fval \<Rightarrow> error + bool grid" where
  "horizontal_vel_test ev ds thres =
     bind_e (grid_of AttributeError ds ''u'') (\<lambda>u.
     bind_e (grid_of AttributeError ds ''v'') (\<lambda>v.
     (let horizontal_velocity = zip2d (\<lambda>a b. fsqrt (fadd (fmul a a) (fmul b b))) u v
      in Inr (greater_where ev ''horizontal'' thres
                (map2d (\<lambda>x. (x, isfinite x)) horizontal_velocity)))))"

definition vertical_vel_test :: "env \<Rightarrow> dataset \<Rightarrow> fval \<Rightarrow> error + bool grid" where
  "vertical_vel_test ev ds thres =
     bind_e (grid_of AttributeError ds ''w'') (\<lambda>w.
     Inr (greater_where ev ''vertical'' thres (map2d (\<lambda>x. (fabs x, isfinite x)) w)))"

definition error_vel_test :: "env \<Rightarrow> dataset \<Rightarrow> fval \<Rightarrow> error + bool grid" where
  "error_vel_test ev ds thres =
     bind_e (grid_of AttributeError ds ''e'') (\<lambda>e.
     bind_e (grid_of AttributeError ds ''w'') (\<lambda>w.
     Inr (greater_where ev ''error'' thres (zip2d (\<lambda>x y. (fabs x, isfinite y)) e w))))"

text \<open>
  One channel of the fifth-beam test: \<^verbatim>\<open>vb_test[dataset.vb_amp < amp_thres] = True\<close>
  when the channel is in the dataset and the threshold is truthy.
\<close>

definition vb_channel :: "dataset \<Rightarrow> string \<Rightarrow> fval option \<Rightarrow> bool grid \<Rightarrow> error + bool grid" where
  "vb_channel ds nm thres vb_test =
     (case thres of
        None \<Rightarrow> Inr vb_test
      | Some t \<Rightarrow>
          if in_dataset ds nm \<and> truthy thres then
            bind_e (grid_of AttributeError ds nm) (\<lambda>g. mask_set (below t g) True vb_test)
          else Inr vb_test)"

definition vertical_beam_test ::
  "dataset \<Rightarrow> fval option \<Rightarrow> fval option \<Rightarrow> fval option \<Rightarrow> error + bool grid" where
  "vertical_beam_test ds amp_thres corr_thres pg_thres =
     bind_e (vb_channel ds ''vb_amp'' amp_thres (full (length (depth ds)) (length (time ds)) False)) (\<lambda>t1.
     bind_e (vb_channel ds ''vb_corr'' corr_thres t1) (\<lambda>t2.
     vb_channel ds ''vb_pg'' pg_thres t2))"

definition MIN_TEMPERATURE :: fval where "MIN_TEMPERATURE = Fin (- 2)"
definition MAX_TEMPERATURE :: fval where "MAX_TEMPERATURE = Fin 32"
definition MIN_PRESSURE :: fval where "MIN_PRESSURE = Fin 0"
definition MAX_PRESSURE :: fval where "MAX_PRESSURE = Fin 10000"

definition temperature_test :: "dataset \<Rightarrow> error + bool list" where
  "temperature_test ds =
     bind_e (series_of AttributeError ds ''temperature'') (\<lambda>t.
     Inr (map (\<lambda>x. fgt x MAX_TEMPERATURE \<or> flt x MIN_TEMPERATURE) t))"

definition pressure_test :: "dataset \<Rightarrow> error + bool list" where
  "pressure_test ds =
     bind_e (series_of AttributeError ds ''pres'') (\<lambda>p.
     Inr (map (\<lambda>x. fgt x MAX_PRESSURE \<or> flt x MIN_PRESSURE) p))"


subsection \<open>Sidelobe test\<close>

text \<open>
  \<^verbatim>\<open>sidelobe_test\<close> returns \<^verbatim>\<open>None\<close> (no beam angle or orientation), \<^verbatim>\<open>False\<close> (the
  test cannot be carried out) or the boolean array of the contaminated cells.
\<close>

datatype sidelobe_result = SL_None | SL_False | SL_Array "bool grid"

definition attr_truthy :: "attr \<Rightarrow> bool" where
  "attr_truthy a =
     (case a of AStr s \<Rightarrow> s \<noteq> [] | ANum x \<Rightarrow> truthy (Some x)
      | AInts xs \<Rightarrow> xs \<noteq> [] | AStrs xs \<Rightarrow> xs \<noteq> [])"

definition get_attr :: "dataset \<Rightarrow> string \<Rightarrow> error + attr" where
  "get_attr ds k = (case map_of (attrs ds) k of None \<Rightarrow> Inl KeyError | Some a \<Rightarrow> Inr a)"

definition num_attr :: "attr \<Rightarrow> error + fval" where
  "num_attr a =
     (case a of ANum x \<Rightarrow> Inr x | AStr s \<Rightarrow> Inl TypeError
      | AInts xs \<Rightarrow> Inl TypeError | AStrs xs \<Rightarrow> Inl TypeError)"

text \<open>
  The transducer depth per time sample: the variable when there is one and no attribute
  of that name, else the attribute tiled over time, else nothing.
\<close>

definition resolve_xducer_depth :: "dataset \<Rightarrow> error + fval list option" where
  "resolve_xducer_depth ds =
     (if in_dataset ds ''xducer_depth'' \<and> map_of (attrs ds) ''xducer_depth'' = None then
        bind_e (series_of KeyError ds ''xducer_depth'') (\<lambda>x. Inr (Some x))
      else
        (case map_of (attrs ds) ''xducer_depth'' of
           Some a \<Rightarrow> bind_e (num_attr a) (\<lambda>x. Inr (Some (replicate (length (time ds)) x)))
         | None \<Rightarrow> Inr None))"

text \<open>
  The bottom depth per time sample: the argument when truthy (a scalar, broadcast),
  else the variable \<^verbatim>\<open>bt_depth\<close>, else nothing.
\<close>

definition resolve_bottom_depth :: "dataset \<Rightarrow> fval option \<Rightarrow> nat \<Rightarrow> error + fval list option" where
  "resolve_bottom_depth ds bottom_depth n =
     (case bottom_depth of
        Some b \<Rightarrow>
          if truthy bottom_depth then Inr (Some (replicate n b))
          else if in_dataset ds ''bt_depth'' then
            bind_e (series_of AttributeError ds ''bt_depth'') (\<lambda>x. Inr (Some x))
          else Inr None
      | None \<Rightarrow>
          if in_dataset ds ''bt_depth'' then
            bind_e (series_of AttributeError ds ''bt_depth'') (\<lambda>x. Inr (Some x))
          else Inr None)"

text \<open>\<^verbatim>\<open>depth_array.T > limit\<close> and \<^verbatim>\<open>depth_array.T < limit\<close>, the limit broadcast across depth.\<close>

definition depth_against :: "(fval \<Rightarrow> fval \<Rightarrow> bool) \<Rightarrow> dataset \<Rightarrow> fval list \<Rightarrow> error + bool grid" where
  "depth_against cmp ds limit =
     (if length limit = length (time ds)
      then Inr (map (\<lambda>d. map (\<lambda>m. cmp d m) limit) (depth ds))
      else Inl ValueError)"

definition sidelobe_test ::
  "dataset \<Rightarrow> logger \<Rightarrow> fval option \<Rightarrow> error + sidelobe_result \<times> logger" where
  "sidelobe_test ds lg bottom_depth =
     bind_e (get_attr ds ''beam_angle'') (\<lambda>beam_angle.
     bind_e (if attr_truthy beam_angle
             then bind_e (get_attr ds ''orientation'') (\<lambda>orientation. Inr (attr_truthy orientation))
             else Inr False) (\<lambda>go.
     if \<not> go then Inr (SL_None, lg) else
     bind_e (num_attr beam_angle) (\<lambda>angle.
     (let cos_angle = fcos_deg angle in
     bind_e (resolve_xducer_depth ds) (\<lambda>xd.
     case xd of
       None \<Rightarrow> Inr (SL_False, Logger_warning [] False
                  (Msg ''Sidelobes correction aborded. Adcp depth `xducer_depth` not provided.'') lg)
     | Some xducer_depth \<Rightarrow>
         bind_e (get_attr ds ''orientation'') (\<lambda>orientation.
         if orientation = AStr ''down'' then
           bind_e (resolve_bottom_depth ds bottom_depth (length xducer_depth)) (\<lambda>bd.
           case bd of
             None \<Rightarrow> Inr (SL_False, Logger_warning [] False
                        (Msg ''Sidelobes correction aborded. Bottom depth not found or provided.'') lg)
           | Some bottom \<Rightarrow>
               if length bottom = length xducer_depth then
                 bind_e (depth_against fgt ds
                           (map2 (\<lambda>x b. fadd x (fmul (fsub b x) cos_angle)) xducer_depth bottom))
                   (\<lambda>g. Inr (SL_Array g, lg))
               else Inl ValueError)
         else if orientation = AStr ''up'' then
           bind_e (depth_against flt ds
                     (map (\<lambda>x. fmul x (fsub (Fin 1) cos_angle)) xducer_depth))
             (\<lambda>g. Inr (SL_Array g, lg))
         else
           Inr (SL_False, Logger_warning [] False
                  (Msg ''Can not correct for sidelobes, `adcp_orientation` parameter not set.'') lg)))))))"

text \<open>\<^verbatim>\<open>if sidelobe_flag:\<close>\<close>

definition sidelobe_truth :: "sidelobe_result \<Rightarrow> error + bool" where
  "sidelobe_truth r =
     (case r of SL_None \<Rightarrow> Inr False | SL_False \<Rightarrow> Inr False | SL_Array g \<Rightarrow> array_truth g)"

subsection \<open>\<^verbatim>\<open>adcp_quality_control\<close>\<close>

record qc_params =
  amp_th :: "fval option"
  corr_th :: "fval option"
  pg_th :: "fval option"
  roll_th :: "fval option"
  pitch_th :: "fval option"
  horizontal_vel_th :: "fval option"
  vertical_vel_th :: "fval option"
  error_vel_th :: "fval option"
  motion_correction_mode :: "string option"
  sidelobes_correction :: bool
  bottom_depth :: "fval option"

definition default_params :: qc_params where
  "default_params =
     \<lparr>amp_th = Some (Fin 30), corr_th = Some (Fin 64), pg_th = Some (Fin 90),
      roll_th = Some (Fin 20), pitch_th = Some (Fin 20), horizontal_vel_th = Some (Fin 5),
      vertical_vel_th = Some (Fin 5), error_vel_th = Some (Fin 5),
      motion_correction_mode = None, sidelobes_correction = False, bottom_depth = None\<rparr>"

text \<open>
  The state the body of \<^verbatim>\<open>adcp_quality_control\<close> works on: the dataset, the module's
  logger \<^verbatim>\<open>l\<close>, the flag grid \<^verbatim>\<open>vel_flags\<close> and the list \<^verbatim>\<open>vel_qc_test\<close>.
\<close>

record qc_state =
  qc_dataset :: dataset
  qc_l :: logger
  vel_flags :: "int grid"
  vel_qc_test :: "string list"

definition FLAG_REFERENCE :: string where
  "FLAG_REFERENCE = ''BODC SeaDataNet''"

definition FLAG_VALUES :: "int list" where
  "FLAG_VALUES = [0, 1, 2, 3, 4, 5, 6, 7, 8, 9]"

definition FLAG_MEANINGS :: "string list" where
  "FLAG_MEANINGS = [''no_quality_control'', ''good_value'', ''probably_good_value'',
     ''probably_bad_value'', ''bad_value'', ''changed_value'', ''value_below_detection'',
     ''value_in_excess'', ''interpolated_value'', ''missing_value'']"

text \<open>
  \<^verbatim>\<open>if th: l.log(msg); flag = test(dataset, th); vel_flags[flag] = 3;
  vel_qc_test.append(entry)\<close>
\<close>

definition threshold_step ::
  "fval option \<Rightarrow> (fval \<Rightarrow> string) \<Rightarrow> (fval \<Rightarrow> string) \<Rightarrow> (dataset \<Rightarrow> fval \<Rightarrow> error + bool grid)
     \<Rightarrow> qc_state \<Rightarrow> error + qc_state" where
  "threshold_step th msg entry test st =
     (case th of
        None \<Rightarrow> Inr st
      | Some t \<Rightarrow>
          if truthy th then
            bind_e (test (qc_dataset st) t) (\<lambda>flag.
            bind_e (mask_set flag 3 (vel_flags st)) (\<lambda>vf.
            Inr (st\<lparr>qc_l := Logger_log [] False (Msg (msg t)) (qc_l st),
                    vel_flags := vf,
                    vel_qc_test := vel_qc_test st @ [entry t]\<rparr>)))
          else Inr st)"

definition tiled :: "(dataset \<Rightarrow> fval \<Rightarrow> error + bool list) \<Rightarrow> dataset \<Rightarrow> fval \<Rightarrow> error + bool grid" where
  "tiled test ds t = bind_e (test ds t) (\<lambda>m. Inr (tile (length (depth ds)) m))"

definition amp_step :: "env \<Rightarrow> qc_params \<Rightarrow> qc_state \<Rightarrow> error + qc_state" where
  "amp_step ev p =
     threshold_step (amp_th p) (\<lambda>t. ''amplitude threshold '' @ str_num ev t)
       (\<lambda>t. ''amplitude_threshold:'' @ str_num ev t) amplitude_test"

definition corr_step :: "env \<Rightarrow> qc_params \<Rightarrow> qc_state \<Rightarrow> error + qc_state" where
  "corr_step ev p =
     threshold_step (corr_th p) (\<lambda>t. ''correlation threshold '' @ str_num ev t)
       (\<lambda>t. ''correlation_threshold:'' @ str_num ev t) correlation_test"

definition pg_step :: "env \<Rightarrow> qc_params \<Rightarrow> qc_state \<Rightarrow> error + qc_state" where
  "pg_step ev p =
     threshold_step (pg_th p) (\<lambda>t. ''percentgood threshold '' @ str_num ev t)
       (\<lambda>t. ''percentgood_threshold:'' @ str_num ev t) percentgood_test"

definition horizontal_step :: "env \<Rightarrow> qc_params \<Rightarrow> qc_state \<Rightarrow> error + qc_state" where
  "horizontal_step ev p =
     threshold_step (horizontal_vel_th p)
       (\<lambda>t. ''horizontal velocity threshold '' @ str_num ev t @ '' m/s'')
       (\<lambda>t. ''horizontal_velocity_threshold:'' @ str_num ev t @ '' m/s'') (horizontal_vel_test ev)"

definition vertical_step :: "env \<Rightarrow> qc_params \<Rightarrow> qc_state \<Rightarrow> error + qc_state" where
  "vertical_step ev p =
     threshold_step (vertical_vel_th p)
       (\<lambda>t. ''vertical velocity threshold '' @ str_num ev t @ '' m/s'')
       (\<lambda>t. ''vertical_velocity_threshold:'' @ str_num ev t @ '' m/s'') (vertical_vel_test ev)"

definition error_step :: "env \<Rightarrow> qc_params \<Rightarrow> qc_state \<Rightarrow> error + qc_state" where
  "error_step ev p =
     threshold_step (error_vel_th p)
       (\<lambda>t. ''error velocity threshold '' @ str_num ev t @ '' m/s'')
       (\<lambda>t. ''velocity_error_threshold:'' @ str_num ev t @ '' m/s'') (error_vel_test ev)"

definition roll_step :: "env \<Rightarrow> qc_params \<Rightarrow> qc_state \<Rightarrow> error + qc_state" where
  "roll_step ev p =
     threshold_step (roll_th p) (\<lambda>t. ''roll threshold '' @ str_num ev t @ '' degree'')
       (\<lambda>t. ''roll_threshold:'' @ str_num ev t @ '' degree'') (tiled (roll_test ev))"

definition pitch_step :: "env \<Rightarrow> qc_params \<Rightarrow> qc_state \<Rightarrow> error + qc_state" where
  "pitch_step ev p =
     threshold_step (pitch_th p) (\<lambda>t. ''pitch threshold '' @ str_num ev t @ '' degree'')
       (\<lambda>t. ''pitch_threshold:'' @ str_num ev t @ '' degree'') (tiled (pitch_test ev))"

definition sidelobe_step :: "qc_params \<Rightarrow> qc_state \<Rightarrow> error + qc_state" where
  "sidelobe_step p st =
     (if sidelobes_correction p then
        bind_e (sidelobe_test (qc_dataset st) (qc_l st) (bottom_depth p)) (\<lambda>r.
        case r of (sidelobe_flag, l1) \<Rightarrow>
        bind_e (sidelobe_truth sidelobe_flag) (\<lambda>b.
        if b then
          (case sidelobe_flag of
             SL_Array g \<Rightarrow>
               bind_e (mask_set g 4 (vel_flags st)) (\<lambda>vf.
               Inr (st\<lparr>qc_l := Logger_log [] False (Msg ''Sidelobe correction carried out.'') l1,
                       vel_flags := vf,
                       vel_qc_test := vel_qc_test st @ [''sidelobes'']\<rparr>))
           | SL_None \<Rightarrow> Inr (st\<lparr>qc_l := l1\<rparr>)
           | SL_False \<Rightarrow> Inr (st\<lparr>qc_l := l1\<rparr>))
        else Inr (st\<lparr>qc_l := l1\<rparr>)))
      else Inr st)"

definition pres_quality_test :: string where
  "pres_quality_test = ''presssure_threshold: less than 0 dbar and greater than 10000 dbar''"

definition pres_step :: "qc_state \<Rightarrow> error + qc_state" where
  "pres_step st =
     (let ds = qc_dataset st in
      if in_dataset ds ''pres'' then
        bind_e (series_of AttributeError ds ''pres'') (\<lambda>pres.
        bind_e (pressure_test ds) (\<lambda>pressure_flags.
        bind_e (mask_set1 pressure_flags (Fin 4) (replicate (length pres) (Fin 1))) (\<lambda>pressure_QC.
        bind_e (if length pressure_QC = length (time ds) then Inr (new_var ''pres_QC'' (D1 pressure_QC) ds)
                else Inl ValueError) (\<lambda>ds1.
        bind_e (mask_set (tile (length (depth ds1)) pressure_flags) 4 (vel_flags st)) (\<lambda>vf.
        Inr (st\<lparr>qc_dataset := set_vattr ''pres_QC'' ''quality_test'' (AStr pres_quality_test) ds1,
                qc_l := Logger_log [] False (Msg ''Good pressure range 0 to 10000 dbar'') (qc_l st),
                vel_flags := vf,
                vel_qc_test := vel_qc_test st @ [pres_quality_test]\<rparr>))))))
      else Inr st)"

definition temperature_quality_test :: string where
  "temperature_quality_test =
     ''temperature_threshold: less than -2 celcius and greater than 32 celsius''"

definition temperature_step :: "qc_state \<Rightarrow> error + qc_state" where
  "temperature_step st =
     (let ds = qc_dataset st in
      if in_dataset ds ''temperature'' then
        bind_e (series_of AttributeError ds ''temperature'') (\<lambda>temperature.
        bind_e (temperature_test ds) (\<lambda>flags.
        bind_e (mask_set1 flags (Fin 4) (replicate (length temperature) (Fin 1))) (\<lambda>temperature_QC.
        bind_e (if length temperature_QC = length (time ds)
                then Inr (new_var ''temperature_QC'' (D1 temperature_QC) ds)
                else Inl ValueError) (\<lambda>ds1.
        Inr (st\<lparr>qc_dataset := set_vattr ''temperature_QC'' ''quality_test''
                                 (AStr temperature_quality_test) ds1,
                qc_l := Logger_log [] False
                          (Msg ''Good temperature range -2 to 32 celsius'') (qc_l st)\<rparr>)))))
      else Inr st)"

text \<open>\<^verbatim>\<open>s * (name in dataset)\<close>: the string once or not at all.\<close>

definition str_if :: "bool \<Rightarrow> string \<Rightarrow> string" where
  "str_if b s = (if b then s else [])"

definition str_opt :: "env \<Rightarrow> fval option \<Rightarrow> string" where
  "str_opt ev th = (case th of None \<Rightarrow> ''None'' | Some t \<Rightarrow> str_num ev t)"

text \<open>\<^verbatim>\<open>vb_flag * 3\<close>: a boolean array times three.\<close>

definition times3 :: "bool grid \<Rightarrow> int grid" where
  "times3 g = map2d (\<lambda>b. of_bool b * 3) g"

definition vb_step :: "env \<Rightarrow> qc_params \<Rightarrow> qc_state \<Rightarrow> error + qc_state" where
  "vb_step ev p st =
     (let ds = qc_dataset st in
      if in_dataset ds ''vb_vel'' then
        bind_e (vertical_beam_test ds (amp_th p) (corr_th p) (pg_th p)) (\<lambda>vb_flag.
        bind_e (if has_shape (length (depth ds)) (length (time ds)) vb_flag
                then Inr (new_var ''vb_vel_QC'' (I2 (times3 vb_flag)) ds)
                else Inl ValueError) (\<lambda>ds1.
        Inr (st\<lparr>qc_dataset := set_vattr ''vb_vel_QC'' ''quality_test''
                  (AStr (str_if (in_dataset ds ''vb_amp'')
                           (''amplitude_threshold: '' @ str_opt ev (amp_th p) @ newline)
                         @ str_if (in_dataset ds ''vb_corr'')
                           (''correlation_threshold: '' @ str_opt ev (corr_th p) @ newline)
                         @ str_if (in_dataset ds ''vb_pg'')
                           (''percentgood_threshold: '' @ str_opt ev (pg_th p) @ newline))) ds1,
                qc_l := Logger_log [] False
                  (Msg (''Fifth beam quality control carried out with''
                        @ str_if (in_dataset ds ''vb_amp'')
                            (''amplitude_threshold: '' @ str_opt ev (amp_th p))
                        @ str_if (in_dataset ds ''vb_corr'')
                            ('', correlation_threshold: '' @ str_opt ev (corr_th p))
                        @ str_if (in_dataset ds ''vb_pg'')
                            ('', percentgood_threshold: '' @ str_opt ev (pg_th p))
                        @ ''.'')) (qc_l st)\<rparr>)))
      else Inr st)"

text \<open>
  The final pass: \<^verbatim>\<open>np.bitwise_or\<close> is given the three masks of non-finite \<^verbatim>\<open>u\<close>,
  \<^verbatim>\<open>v\<close> and \<^verbatim>\<open>w\<close> as positional arguments.
\<close>

definition not_finite :: "fval grid \<Rightarrow> bool grid" where
  "not_finite g = map2d (\<lambda>x. \<not> isfinite x) g"

definition missing_step :: "qc_state \<Rightarrow> error + qc_state" where
  "missing_step st =
     bind_e (grid_of KeyError (qc_dataset st) ''u'') (\<lambda>u.
     bind_e (grid_of KeyError (qc_dataset st) ''v'') (\<lambda>v.
     bind_e (grid_of KeyError (qc_dataset st) ''w'') (\<lambda>w.
     bind_e (bitwise_or3 (not_finite u) (not_finite v) (not_finite w)) (\<lambda>missing_vel.
     bind_e (mask_set missing_vel 9 (vel_flags st)) (\<lambda>vf.
     Inr (st\<lparr>vel_flags := vf\<rparr>))))))"

fun join_nl :: "string list \<Rightarrow> string" where
  "join_nl [] = []"
| "join_nl [s] = s"
| "join_nl (s # t # ss) = s @ newline @ join_nl (t # ss)"

text \<open>\<^verbatim>\<open>dataset[v + "_QC"] = (["depth", "time"], vel_flags)\<close> and its \<^verbatim>\<open>quality_test\<close>.\<close>

definition write_flags :: "int grid \<Rightarrow> string list \<Rightarrow> string \<Rightarrow> dataset \<Rightarrow> error + dataset" where
  "write_flags flags tests v ds =
     (if has_shape (length (depth ds)) (length (time ds)) flags
      then Inr (set_vattr (v @ ''_QC'') ''quality_test'' (AStr (join_nl tests))
                  (new_var (v @ ''_QC'') (I2 flags) ds))
      else Inl ValueError)"

text \<open>\<^verbatim>\<open>pat in s\<close> on strings.\<close>

fun contains :: "string \<Rightarrow> string \<Rightarrow> bool" where
  "contains pat [] = (pat = [])"
| "contains pat (c # cs) = (take (length pat) (c # cs) = pat \<or> contains pat cs)"

definition stamp_var :: "env \<Rightarrow> string \<times> variable \<Rightarrow> string \<times> variable" where
  "stamp_var ev nv =
     (case nv of (n, v) \<Rightarrow>
        if contains ''_QC'' n then
          (n, Var (vdata v)
                (AList.update ''flag_reference'' (AStr FLAG_REFERENCE)
                  (AList.update ''flag_values'' (AInts FLAG_VALUES)
                    (AList.update ''flag_meanings'' (AStrs FLAG_MEANINGS)
                      (AList.update ''quality_date'' (AStr (today ev)) (vattrs v))))))
        else (n, v))"

definition stamp_flags :: "env \<Rightarrow> dataset \<Rightarrow> dataset" where
  "stamp_flags ev ds = ds\<lparr>vars := map (stamp_var ev) (vars ds)\<rparr>"

text \<open>
  The end of the function: \<^verbatim>\<open>quality_comments\<close>, the summary line, the logbook
  attribute (which must exist: \<^verbatim>\<open>+=\<close>) and the flag attributes of the dataset.
\<close>

definition finish :: "dataset \<Rightarrow> logger \<Rightarrow> error + dataset \<times> logger" where
  "finish ds lg =
     (let ds1 = set_attr ''quality_comments'' (AStr (logbook lg)) ds;
          l1 = Logger_log [] False
                 (Msg (''Quality Control was carried out with '' @ str_nat (w_count lg) @ '' warnings'')) lg
      in bind_e (get_attr ds1 ''logbook'') (\<lambda>a.
         case a of
           AStr old \<Rightarrow>
             Inr (set_attr ''flags_meanings'' (AStrs FLAG_MEANINGS)
                   (set_attr ''flags_values'' (AInts FLAG_VALUES)
                     (set_attr ''flags_reference'' (AStr FLAG_REFERENCE)
                       (set_attr ''logbook'' (AStr (old @ logbook l1)) ds1))), l1)
         | ANum x \<Rightarrow> Inl TypeError
         | AInts xs \<Rightarrow> Inl TypeError
         | AStrs xs \<Rightarrow> Inl TypeError))"

definition steps :: "env \<Rightarrow> qc_params \<Rightarrow> (qc_state \<Rightarrow> error + qc_state) list" where
  "steps ev p =
     [amp_step ev p, corr_step ev p, pg_step ev p, horizontal_step ev p, vertical_step ev p,
      error_step ev p, roll_step ev p, pitch_step ev p, sidelobe_step p, pres_step,
      temperature_step, vb_step ev p, missing_step]"

definition run_motion :: "qc_params \<Rightarrow> dataset \<Rightarrow> logger \<Rightarrow> error + dataset \<times> logger" where
  "run_motion p ds lg =
     (case motion_correction_mode p of
        None \<Rightarrow> Inr (ds, lg)
      | Some mode \<Rightarrow> if mode \<noteq> [] then motion_correction ds lg mode else Inr (ds, lg))"

definition adcp_quality_control ::
  "env \<Rightarrow> qc_params \<Rightarrow> dataset \<Rightarrow> logger \<Rightarrow> error + dataset \<times> logger" where
  "adcp_quality_control ev p dataset l =
     bind_e (run_motion p dataset (Logger_section [] False ''Quality Control'' (Logger_reset l))) (\<lambda>r.
     case r of (ds1, l1) \<Rightarrow>
     bind_e (set_implausible_vel_to_nan ds1 IMPLAUSIBLE_VEL_TRESHOLD) (\<lambda>ds2.
     bind_e (fold_e (\<lambda>step st. step st) (steps ev p)
               \<lparr>qc_dataset = ds2, qc_l = l1,
                vel_flags = full (length (depth ds2)) (length (time ds2)) 1,
                vel_qc_test = []\<rparr>) (\<lambda>st.
     bind_e (fold_e (write_flags (vel_flags st) (vel_qc_test st)) [''u'', ''v'', ''w'']
               (qc_dataset st)) (\<lambda>ds3.
     finish (stamp_flags ev ds3) (qc_l st)))))"


subsection \<open>The loader: its logger and the coordinate-system step\<close>

text \<open>
  \<^verbatim>\<open>loader.py\<close> has a logger class of its own: \<^verbatim>\<open>log\<close> counts a message as a warning
  when it contains \<^verbatim>\<open>WARNING:\<close>, and for a list it logs each element without passing
  \<^verbatim>\<open>t\<close> on.
\<close>

record loader_logger =
  l_logbook :: string
  l_w_count :: nat
  l_printed :: "string list"

fun loader_log :: "string \<Rightarrow> bool \<Rightarrow> message \<Rightarrow> loader_logger \<Rightarrow> loader_logger" where
  "loader_log ts t (Msgs ms) lg = fold (loader_log ts False) ms lg"
| "loader_log ts t (Msg msg) lg =
     (let lg1 = (if contains ''WARNING:'' msg
                 then lg\<lparr>l_printed := l_printed lg @ [''WARNING:'' @ drop 8 msg],
                         l_w_count := l_w_count lg + 1\<rparr>
                 else lg\<lparr>l_printed := l_printed lg @ [msg]\<rparr>);
          msg1 = (if \<not> t then msg else ts @ '' '' @ msg)
      in lg1\<lparr>l_logbook := l_logbook lg1 @ '' '' @ msg1 @ newline\<rparr>)"

text \<open>
  The part of the raw bundle \<^verbatim>\<open>Multiread.read()\<close> returns that \<^verbatim>\<open>coordsystem2earth\<close>
  touches: \<^verbatim>\<open>trans.coordsystem\<close>, \<^verbatim>\<open>sysconfig.convex\<close> and \<^verbatim>\<open>sysconfig.angle\<close>, the
  attitude series, \<^verbatim>\<open>vel.data\<close> (time by depth by four) and \<^verbatim>\<open>bt_vel.data\<close> (time by
  four). The functions of \<^verbatim>\<open>pycurrents.adcp.transform\<close> and \<^verbatim>\<open>np.round\<close> are taken as
  they are.
\<close>

record raw_bundle =
  coordsystem :: string
  convex :: bool
  angle :: fval
  heading :: "fval list"
  roll :: "fval list"
  pitch :: "fval list"
  vel :: "fval list list list"
  bt_vel :: "fval list list"

record transforms =
  beam_to_xyz :: "fval \<Rightarrow> string \<Rightarrow> fval list list list \<Rightarrow> fval list list list"
  bt_beam_to_xyz :: "fval \<Rightarrow> string \<Rightarrow> fval list list \<Rightarrow> fval list list"
  rdi_xyz_enu ::
    "fval list list list \<Rightarrow> fval list \<Rightarrow> fval list \<Rightarrow> fval list \<Rightarrow> string \<Rightarrow> fval list list list"
  bt_rdi_xyz_enu ::
    "fval list list \<Rightarrow> fval list \<Rightarrow> fval list \<Rightarrow> fval list \<Rightarrow> string \<Rightarrow> fval list list"
  round3 :: "fval \<Rightarrow> fval"

text \<open>\<^verbatim>\<open>(x == 0).all()\<close>\<close>

definition all_zero :: "fval list \<Rightarrow> bool" where
  "all_zero xs = list_all (\<lambda>x. x = Fin 0) xs"

text \<open>
  \<^verbatim>\<open>coordsystem2earth\<close>. The first statement builds a \<^verbatim>\<open>CoordinateSystemError\<close> and
  drops it: there is no \<^verbatim>\<open>raise\<close>, so it has no effect and the function goes on. The
  local \<^verbatim>\<open>bt_xyze\<close> is bound in the \<^verbatim>\<open>beam\<close> branch only (the line before binds
  \<^verbatim>\<open>xyze_bt\<close>); where it is read unbound, Python raises UnboundLocalError. The loop
  over the four components writes the rounded arrays back.
\<close>

definition coordsystem2earth :: "transforms \<Rightarrow> raw_bundle \<Rightarrow> string \<Rightarrow> error + raw_bundle" where
  "coordsystem2earth tr data orientation =
     (let dropped = (if coordsystem data \<notin> set [''beam'', ''xyz'']
                     then Some CoordinateSystemError else None);
          beam_pattern = (if convex data then ''convex'' else ''concave'');
          xyze = (if coordsystem data = ''beam''
                  then beam_to_xyz tr (angle data) beam_pattern (vel data) else vel data);
          bt_xyze = (if coordsystem data = ''beam''
                     then Some (bt_beam_to_xyz tr (angle data) beam_pattern (bt_vel data)) else None)
      in if all_zero (heading data) \<or> all_zero (roll data) \<or> all_zero (pitch data) then
           (case bt_xyze of
              None \<Rightarrow> Inl UnboundLocalError
            | Some bt \<Rightarrow>
                Inr (data\<lparr>coordsystem := ''xyz'',
                          vel := map (map (map (round3 tr))) xyze,
                          bt_vel := map (map (round3 tr)) bt\<rparr>))
         else
           (case bt_xyze of
              None \<Rightarrow> Inl UnboundLocalError
            | Some bt \<Rightarrow>
                Inr (data\<lparr>coordsystem := ''earth'',
                          vel := map (map (map (round3 tr)))
                                   (rdi_xyz_enu tr xyze (heading data) (pitch data) (roll data) orientation),
                          bt_vel := map (map (round3 tr))
                                   (bt_rdi_xyz_enu tr bt (heading data) (pitch data) (roll data) orientation)\<rparr>)))"

text \<open>
  The step of \<^verbatim>\<open>load_rdi_binary\<close> that deals with the coordinate system (the lines
  between \<^verbatim>\<open>init_dataset\<close> and the loading of the transducer data).
\<close>

definition load_coordsystem ::
  "transforms \<Rightarrow> raw_bundle \<Rightarrow> string \<Rightarrow> loader_logger \<Rightarrow> error + raw_bundle \<times> loader_logger" where
  "load_coordsystem tr data orientation lg =
     (let original_coordsystem = coordsystem data in
      if original_coordsystem \<noteq> ''earth'' then
        (let l1 = loader_log [] False
                    (Msg (''The velocity data are in '' @ coordsystem data @ '' coordinate'')) lg in
         bind_e (coordsystem2earth tr data orientation) (\<lambda>data1.
         (let l2 = (if coordsystem data1 = ''xyz''
                    then loader_log [] False
                           (Msg ''WARNING: Roll, Pitch or Heading seems to be missing from the data file.'') l1
                    else l1)
          in Inr (data1, loader_log [] False
                    (Msg (''The velocity data were transformed to '' @ coordsystem data1)) l2))))
      else Inr (data, lg))"

text \<open>A bundle of one ping and one depth cell that reports the coordinate system \<^verbatim>\<open>ship\<close>.\<close>

definition ship_bundle :: raw_bundle where
  "ship_bundle =
     \<lparr>coordsystem = ''ship'', convex = True, angle = Fin 20, heading = [Fin 10],
      roll = [Fin 1], pitch = [Fin 2], vel = [[[Fin 1, Fin 2, Fin 0, Fin 0]]],
      bt_vel = [[Fin 0, Fin 0, Fin 0, Fin 0]]\<rparr>"


subsection \<open>The loader: the time base\<close>

text \<open>
  The lines of \<^verbatim>\<open>load_rdi_binary\<close> that turn \<^verbatim>\<open>data.dday\<close> into the time coordinate
  (165 to 178), \<^verbatim>\<open>dday_to_datetime64\<close>, the coordinates and one-dimensional variables
  of \<^verbatim>\<open>init_dataset\<close>, and the lines that store \<^verbatim>\<open>time_string\<close> and \<^verbatim>\<open>dday\<close> (314 to
  316). What \<^verbatim>\<open>pandas\<close> does to one fractional day (\<^verbatim>\<open>to_datetime\<close> with unit \<^verbatim>\<open>D\<close>
  and the origin \<^verbatim>\<open>yearbase-01-01\<close>, \<^verbatim>\<open>strftime\<close> to the second, and back to
  \<^verbatim>\<open>datetime64[s]\<close>) is taken as it is: \<open>to_second\<close> gives the second it ends on,
  \<open>second_str\<close> its text.
\<close>

record calendar =
  to_second :: "int \<Rightarrow> fval \<Rightarrow> int"
  second_str :: "int \<Rightarrow> string"

definition dday_to_datetime64 :: "calendar \<Rightarrow> fval list \<Rightarrow> int \<Rightarrow> int list \<times> string list" where
  "dday_to_datetime64 cal dday yearbase =
     (let tm = map (to_second cal yearbase) dday in (tm, map (second_str cal) tm))"

text \<open>\<^verbatim>\<open>np.diff(x)\<close>: each entry minus the one before.\<close>

definition np_diff :: "fval list \<Rightarrow> fval list" where
  "np_diff xs = map2 fsub (tl xs) xs"

text \<open>\<^verbatim>\<open>(data.dday < 0).any() or (np.diff(data.dday) < 0).any()\<close>\<close>

definition bad_dday :: "fval list \<Rightarrow> bool" where
  "bad_dday dday =
     (list_ex (\<lambda>x. flt x (Fin 0)) dday \<or> list_ex (\<lambda>x. flt x (Fin 0)) (np_diff dday))"

text \<open>\<^verbatim>\<open>np.arange(n) / (3600 * 24)\<close>, the quotient taken exactly.\<close>

definition arange_days :: "nat \<Rightarrow> fval list" where
  "arange_days n = map (\<lambda>k. Fin (real k / 86400)) [0..<n]"

definition str_int :: "int \<Rightarrow> string" where
  "str_int y = (if y < 0 then ''-'' @ str_nat (nat (- y)) else str_nat (nat y))"

text \<open>
  The message of the substitution. The list handed to \<^verbatim>\<open>l.log\<close> holds two string
  literals with no comma between them, that is, one string.
\<close>

definition time_warning :: "int \<Rightarrow> string" where
  "time_warning yearbase =
     ''WARNING: The `dday` vector either contains negative values or is not monotonically increasing.''
     @ ''WARNING: Time was replaced by a default datetime vector: 1 second timestep since ''
     @ str_int yearbase"

definition convert_time ::
  "calendar \<Rightarrow> fval list \<Rightarrow> int \<Rightarrow> loader_logger
     \<Rightarrow> bool \<times> (int list \<times> string list) \<times> loader_logger" where
  "convert_time cal dday yearbase lg =
     (if bad_dday dday then
        (True, dday_to_datetime64 cal (arange_days (length dday)) yearbase,
         loader_log [] False (Msgs [Msg (time_warning yearbase)]) lg)
      else (False, dday_to_datetime64 cal dday yearbase, lg))"

text \<open>
  The one-dimensional part of the dataset under construction: coordinates and data
  variables, each with the name of its dimension and its values. The depth-by-time
  variables are not touched by the lines modelled here.
\<close>

datatype xdata = XFloat "fval list" | XTime "int list" | XStr "string list"

definition xsize :: "xdata \<Rightarrow> nat" where
  "xsize d = (case d of XFloat xs \<Rightarrow> length xs | XTime ts \<Rightarrow> length ts | XStr ss \<Rightarrow> length ss)"

record loaded =
  coords :: "(string \<times> string \<times> xdata) list"
  data_vars :: "(string \<times> string \<times> xdata) list"

definition time_variables :: "string list" where
  "time_variables = [''lon'', ''lat'', ''roll_'', ''pitch'', ''heading'', ''bt_u'', ''bt_v'',
     ''bt_w'', ''bt_e'', ''bt_depth'', ''xducer_depth'', ''temp'', ''pres'', ''time_string'']"

definition init_dataset :: "int list \<Rightarrow> fval list \<Rightarrow> loaded" where
  "init_dataset tm dep =
     \<lparr>coords = [(''depth'', ''depth'', XFloat dep), (''time'', ''time'', XTime tm)],
      data_vars = map (\<lambda>n. (n, ''time'', XFloat (replicate (length tm) NaN))) time_variables\<rparr>"

text \<open>\<^verbatim>\<open>ds[n].values = v\<close>: the variable must exist and keep its size.\<close>

definition set_values :: "string \<Rightarrow> xdata \<Rightarrow> loaded \<Rightarrow> error + loaded" where
  "set_values n v ds =
     (case map_of (data_vars ds) n of
        None \<Rightarrow> Inl KeyError
      | Some (dn, old) \<Rightarrow>
          if xsize old = xsize v
          then Inr (ds\<lparr>data_vars := AList.update n (dn, v) (data_vars ds)\<rparr>)
          else Inl ValueError)"

text \<open>
  The size a dimension has in the dataset, and \<^verbatim>\<open>ds["dday"] = (["T"], data.dday)\<close>: a
  data variable on the dimension \<^verbatim>\<open>T\<close>, refused when that dimension exists with another
  size.
\<close>

definition dim_size :: "loaded \<Rightarrow> string \<Rightarrow> nat option" where
  "dim_size ds dn =
     map_option (\<lambda>e. xsize (snd (snd e)))
       (find (\<lambda>e. fst (snd e) = dn) (coords ds @ data_vars ds))"

definition keep_dday :: "bool \<Rightarrow> fval list \<Rightarrow> loaded \<Rightarrow> error + loaded" where
  "keep_dday bad_time dday ds =
     (if bad_time then
        (case dim_size (ds\<lparr>data_vars := AList.delete ''dday'' (data_vars ds)\<rparr>) ''T'' of
           None \<Rightarrow> Inr (ds\<lparr>data_vars := AList.update ''dday'' (''T'', XFloat dday) (data_vars ds)\<rparr>)
         | Some n \<Rightarrow>
             if n = length dday
             then Inr (ds\<lparr>data_vars := AList.update ''dday'' (''T'', XFloat dday) (data_vars ds)\<rparr>)
             else Inl ValueError)
      else Inr ds)"

definition load_times ::
  "calendar \<Rightarrow> fval list \<Rightarrow> fval list \<Rightarrow> int \<Rightarrow> loader_logger \<Rightarrow> error + loaded \<times> loader_logger" where
  "load_times cal dday dep yearbase lg =
     (case convert_time cal dday yearbase lg of
        (bad_time, (tm, time_string), l1) \<Rightarrow>
          bind_e (set_values ''time_string'' (XStr time_string) (init_dataset tm dep)) (\<lambda>ds1.
          bind_e (keep_dday bad_time dday ds1) (\<lambda>ds2. Inr (ds2, l1))))"

text \<open>What a load leaves under a name: a coordinate, a data variable.\<close>

definition coordinate_of :: "error + loaded \<times> loader_logger \<Rightarrow> string \<Rightarrow> (string \<times> xdata) option" where
  "coordinate_of r n = (case r of Inl e \<Rightarrow> None | Inr (ds, lg) \<Rightarrow> map_of (coords ds) n)"

definition data_var_of :: "error + loaded \<times> loader_logger \<Rightarrow> string \<Rightarrow> (string \<times> xdata) option" where
  "data_var_of r n = (case r of Inl e \<Rightarrow> None | Inr (ds, lg) \<Rightarrow> map_of (data_vars ds) n)"

definition warnings_of :: "error + loaded \<times> loader_logger \<Rightarrow> nat option" where
  "warnings_of r = (case r of Inl e \<Rightarrow> None | Inr (ds, lg) \<Rightarrow> Some (l_w_count lg))"

definition logbook_of :: "error + loaded \<times> loader_logger \<Rightarrow> string option" where
  "logbook_of r = (case r of Inl e \<Rightarrow> None | Inr (ds, lg) \<Rightarrow> Some (l_logbook lg))"

text \<open>An exact calendar, for the examples: the whole seconds of the fractional day.\<close>

definition whole_seconds :: calendar where
  "whole_seconds =
     \<lparr>to_second = (\<lambda>yearbase d. case d of Fin r \<Rightarrow> \<lfloor>r * 86400\<rfloor> | PInf \<Rightarrow> 0 | NInf \<Rightarrow> 0 | NaN \<Rightarrow> 0),
      second_str = (\<lambda>t. [])\<rparr>"

definition fresh_logger :: loader_logger where
  "fresh_logger = \<lparr>l_logbook = [], l_w_count = 0, l_printed = []\<rparr>"


subsection \<open>Reading the result, and a small dataset\<close>

text \<open>The integer grid a flag variable holds.\<close>

definition flags_of :: "dataset \<Rightarrow> string \<Rightarrow> int grid option" where
  "flags_of ds n =
     (case map_of (vars ds) n of
        None \<Rightarrow> None
      | Some v \<Rightarrow> (case vdata v of I2 g \<Rightarrow> Some g | D1 xs \<Rightarrow> None | D2 g \<Rightarrow> None))"

text \<open>The flag grid \<^verbatim>\<open>adcp_quality_control\<close> leaves under a name, when it returns.\<close>

definition qc_flags :: "error + dataset \<times> logger \<Rightarrow> string \<Rightarrow> int grid option" where
  "qc_flags r n = (case r of Inl e \<Rightarrow> None | Inr (ds, lg) \<Rightarrow> flags_of ds n)"

definition returns :: "error + 'a \<Rightarrow> bool" where
  "returns r = (case r of Inl e \<Rightarrow> False | Inr x \<Rightarrow> True)"

text \<open>
  A downward-looking five-beam dataset of one depth bin and two time samples, with the
  variables \<^verbatim>\<open>init_dataset\<close> creates for sonar \<^verbatim>\<open>sv\<close> that the quality control reads.
  At the second sample \<^verbatim>\<open>w\<close> alone is not-a-number.
\<close>

definition example_env :: env where
  "example_env =
     \<lparr>circmean = (\<lambda>xs. Fin 0), circular_distance = (\<lambda>x m. fabs (fsub x m)),
      uninit = (\<lambda>nm i j. True), str_num = (\<lambda>x. ''?''), today = ''2021-03-01''\<rparr>"

definition example_vars :: "(string \<times> variable) list" where
  "example_vars =
     [(''u'', Var (D2 [[Fin 1, Fin 2]]) []),
      (''v'', Var (D2 [[Fin 0, Fin 0]]) []),
      (''w'', Var (D2 [[Fin 0, NaN]]) []),
      (''e'', Var (D2 [[Fin 0, Fin 0]]) []),
      (''pg'', Var (D2 [[Fin 100, Fin 100]]) []),
      (''amp1'', Var (D2 [[Fin 10, Fin 10]]) []),
      (''amp2'', Var (D2 [[Fin 10, Fin 10]]) []),
      (''amp3'', Var (D2 [[Fin 10, Fin 10]]) []),
      (''amp4'', Var (D2 [[Fin 10, Fin 50]]) []),
      (''corr1'', Var (D2 [[Fin 100, Fin 100]]) []),
      (''corr2'', Var (D2 [[Fin 100, Fin 100]]) []),
      (''corr3'', Var (D2 [[Fin 100, Fin 100]]) []),
      (''corr4'', Var (D2 [[Fin 100, Fin 100]]) []),
      (''roll_'', Var (D1 [Fin 0, Fin 0]) []),
      (''pitch'', Var (D1 [Fin 0, Fin 0]) []),
      (''bt_u'', Var (D1 [Fin 1, Fin 1]) []),
      (''bt_v'', Var (D1 [Fin 0, Fin 0]) []),
      (''bt_w'', Var (D1 [Fin 0, Fin 0]) []),
      (''bt_depth'', Var (D1 [Fin 100, Fin 100]) []),
      (''xducer_depth'', Var (D1 [Fin 0, Fin 0]) []),
      (''vb_vel'', Var (D2 [[Fin 0, Fin 0]]) []),
      (''vb_amp'', Var (D2 [[Fin 10, Fin 50]]) []),
      (''vb_corr'', Var (D2 [[Fin 100, Fin 100]]) [])]"

definition example_ds :: dataset where
  "example_ds =
     \<lparr>depth = [Fin 10], time = [0, 1], vars = example_vars,
      attrs = [(''logbook'', AStr ''[Loading RDI]''), (''beam_angle'', ANum (Fin 20)),
               (''orientation'', AStr ''down'')]\<rparr>"

text \<open>The example after \<^verbatim>\<open>set_implausible_vel_to_nan\<close>: the second sample is void.\<close>

definition example_masked :: dataset where
  "example_masked =
     example_ds\<lparr>vars := [(''u'', Var (D2 [[Fin 1, NaN]]) []),
                         (''v'', Var (D2 [[Fin 0, NaN]]) []),
                         (''w'', Var (D2 [[Fin 0, NaN]]) [])] @ drop 3 example_vars\<rparr>"

text \<open>A dataset without one of its variables.\<close>

definition without :: "string \<Rightarrow> dataset \<Rightarrow> dataset" where
  "without n ds = ds\<lparr>vars := filter (\<lambda>nv. fst nv \<noteq> n) (vars ds)\<rparr>"


text \<open>What the steps before the final pass keep: the velocity arrays and the shape of the flag grid.\<close>

definition keeps :: "fval grid \<Rightarrow> fval grid \<Rightarrow> fval grid \<Rightarrow> nat list \<Rightarrow> qc_state \<Rightarrow> bool" where
  "keeps U V W sh st =
     (grid_of KeyError (qc_dataset st) ''u'' = Inr U \<and> grid_of KeyError (qc_dataset st) ''v'' = Inr V
      \<and> grid_of KeyError (qc_dataset st) ''w'' = Inr W \<and> shape (vel_flags st) = sh)"

text \<open>
  What motion correction keeps: the coordinates, and for each velocity array of the
  depth-by-time shape an array of that shape in which the cells that were not finite
  are still not finite.
\<close>

definition void_kept :: "nat \<Rightarrow> nat \<Rightarrow> dataset \<Rightarrow> dataset \<Rightarrow> bool" where
  "void_kept nd nt ds ds' =
     (depth ds' = depth ds \<and> time ds' = time ds \<and>
      (\<forall>c g. c \<in> {''u'', ''v'', ''w''} \<longrightarrow> grid_of KeyError ds c = Inr g \<longrightarrow> has_shape nd nt g \<longrightarrow>
         (\<exists>g'. grid_of KeyError ds' c = Inr g' \<and> has_shape nd nt g' \<and>
               (\<forall>i<nd. \<forall>j<nt. \<not> isfinite (cell g i j) \<longrightarrow> \<not> isfinite (cell g' i j)))))"

section \<open>Properties\<close>

subsection \<open>Arrays and lookups\<close>

lemma bind_e_Inr: "bind_e m f = Inr y \<longleftrightarrow> (\<exists>x. m = Inr x \<and> f x = Inr y)"
  by (cases m) (simp_all add: bind_e_def)

lemma bind_e_simps [simp]: "bind_e (Inr x) f = f x" "bind_e (Inl e) f = Inl e"
  by (simp_all add: bind_e_def)

lemma has_shape_iff: "has_shape nd nt g \<longleftrightarrow> shape g = replicate nd nt"
proof (induction g arbitrary: nd)
  case Nil
  show ?case by (auto simp: has_shape_def shape_def)
next
  case (Cons row g)
  show ?case
  proof (cases nd)
    case 0
    then show ?thesis by (simp add: has_shape_def shape_def)
  next
    case (Suc k)
    with Cons[of k] show ?thesis by (auto simp: has_shape_def shape_def)
  qed
qed

lemma has_shape_length: "has_shape nd nt g \<Longrightarrow> length g = nd"
  by (simp add: has_shape_def)

lemma has_shape_row: "has_shape nd nt g \<Longrightarrow> i < nd \<Longrightarrow> length (g ! i) = nt"
  by (auto simp: has_shape_def list_all_length)

lemma shape_map2d [simp]: "shape (map2d f g) = shape g"
  by (simp add: shape_def map2d_def comp_def)

lemma shape_zip2d: "shape a = shape b \<Longrightarrow> shape (zip2d f a b) = shape a"
  unfolding shape_def zip2d_def
proof (induction a arbitrary: b)
  case Nil then show ?case by simp
next
  case (Cons x xs) then show ?case by (cases b) auto
qed

lemma shape_full [simp]: "shape (full nd nt x) = replicate nd nt"
  by (simp add: shape_def full_def)

lemma shape_tile [simp]: "shape (tile nd row) = replicate nd (length row)"
  by (simp add: shape_def tile_def)

lemma length_imap_row: "length (map (\<lambda>(j, x). f j x) (enumerate n row)) = length row"
  by simp

lemma shape_imap2d [simp]: "shape (imap2d f g) = shape g"
proof -
  have "map (\<lambda>p. length (case p of (i, row) \<Rightarrow> map (\<lambda>(j, x). f i j x) (enumerate 0 row))) (enumerate n g)
        = map length g" for n
    by (induction g arbitrary: n) auto
  then show ?thesis by (simp add: shape_def imap2d_def comp_def)
qed

lemma cell_map2d: "i < length g \<Longrightarrow> j < length (g ! i) \<Longrightarrow> cell (map2d f g) i j = f (cell g i j)"
  by (simp add: cell_def map2d_def)

lemma cell_zip2d:
  "i < length a \<Longrightarrow> i < length b \<Longrightarrow> j < length (a ! i) \<Longrightarrow> j < length (b ! i) \<Longrightarrow>
   cell (zip2d f a b) i j = f (cell a i j) (cell b i j)"
  by (simp add: cell_def zip2d_def)

lemma cell_imap2d:
  "i < length g \<Longrightarrow> j < length (g ! i) \<Longrightarrow> cell (imap2d f g) i j = f i j (cell g i j)"
  by (simp add: cell_def imap2d_def nth_enumerate_eq)

lemma cell_full: "i < nd \<Longrightarrow> j < nt \<Longrightarrow> cell (full nd nt x) i j = x"
  by (simp add: cell_def full_def)

lemma cell_tile: "i < nd \<Longrightarrow> cell (tile nd row) i j = row ! j"
  by (simp add: cell_def tile_def)

lemma wf_lookup:
  assumes "wf_dataset ds" "map_of (vars ds) n = Some v"
  shows "wf_var (length (depth ds)) (length (time ds)) v"
    and "n \<in> set grid_names \<Longrightarrow> is_D2 v"
    and "n \<in> set series_names \<Longrightarrow> is_D1 v"
proof -
  from assms(2) have "(n, v) \<in> set (vars ds)" by (rule map_of_SomeD)
  with assms(1) have
    "wf_var (length (depth ds)) (length (time ds)) v
       \<and> (n \<in> set grid_names \<longrightarrow> is_D2 v) \<and> (n \<in> set series_names \<longrightarrow> is_D1 v)"
    unfolding wf_dataset_def list_all_iff by blast
  then show "wf_var (length (depth ds)) (length (time ds)) v"
    and "n \<in> set grid_names \<Longrightarrow> is_D2 v"
    and "n \<in> set series_names \<Longrightarrow> is_D1 v" by simp_all
qed

lemma wf_grid:
  assumes "wf_dataset ds" "in_dataset ds n" "n \<in> set grid_names"
  shows "\<exists>g. grid_of e ds n = Inr g \<and> has_shape (length (depth ds)) (length (time ds)) g"
proof -
  from assms(3) have "n \<noteq> ''depth''" "n \<noteq> ''time''" by (auto simp: grid_names_def)
  with assms(2) obtain v where v: "map_of (vars ds) n = Some v"
    by (auto simp: in_dataset_def)
  from wf_lookup(1,2)[OF assms(1) v] assms(3)
  have "wf_var (length (depth ds)) (length (time ds)) v" "is_D2 v" by simp_all
  then show ?thesis using v
    by (cases v) (auto simp: grid_of_def wf_var_def is_D2_def split: vdata.splits)
qed

lemma wf_series:
  assumes "wf_dataset ds" "in_dataset ds n" "n \<in> set series_names"
  shows "\<exists>xs. series_of e ds n = Inr xs \<and> length xs = length (time ds)"
proof -
  from assms(3) have "n \<noteq> ''depth''" "n \<noteq> ''time''" by (auto simp: series_names_def)
  with assms(2) obtain v where v: "map_of (vars ds) n = Some v"
    by (auto simp: in_dataset_def)
  from wf_lookup(1,3)[OF assms(1) v] assms(3)
  have "wf_var (length (depth ds)) (length (time ds)) v" "is_D1 v" by simp_all
  then show ?thesis using v
    by (cases v) (auto simp: series_of_def wf_var_def is_D1_def split: vdata.splits)
qed

lemma cell_below:
  "has_shape nd nt g \<Longrightarrow> i < nd \<Longrightarrow> j < nt \<Longrightarrow> cell (below t g) i j = flt (cell g i j) t"
  by (simp add: below_def cell_map2d has_shape_length has_shape_row)

lemma shape_below [simp]: "shape (below t g) = shape g"
  by (simp add: below_def)

lemma has_shape_below [simp]: "has_shape nd nt (below t g) = has_shape nd nt g"
  by (simp add: has_shape_iff)

lemma and4_cell:
  assumes "has_shape nd nt a" "has_shape nd nt b" "has_shape nd nt c" "has_shape nd nt d"
  shows "has_shape nd nt (and4 a b c d)"
    and "i < nd \<Longrightarrow> j < nt \<Longrightarrow>
         cell (and4 a b c d) i j = (cell a i j \<and> cell b i j \<and> cell c i j \<and> cell d i j)"
proof -
  have ab: "has_shape nd nt (zip2d (\<and>) a b)"
    using assms by (simp add: has_shape_iff shape_zip2d)
  then have abc: "has_shape nd nt (zip2d (\<and>) (zip2d (\<and>) a b) c)"
    using assms by (simp add: has_shape_iff shape_zip2d)
  then show "has_shape nd nt (and4 a b c d)"
    using assms by (simp add: and4_def has_shape_iff shape_zip2d)
  assume ij: "i < nd" "j < nt"
  have 1: "cell (zip2d (\<and>) a b) i j = (cell a i j \<and> cell b i j)"
    using assms ij by (simp add: cell_zip2d has_shape_length has_shape_row)
  have 2: "cell (zip2d (\<and>) (zip2d (\<and>) a b) c) i j = (cell (zip2d (\<and>) a b) i j \<and> cell c i j)"
    using assms ab ij by (simp add: cell_zip2d has_shape_length has_shape_row)
  have 3: "cell (and4 a b c d) i j = (cell (zip2d (\<and>) (zip2d (\<and>) a b) c) i j \<and> cell d i j)"
    unfolding and4_def using assms abc ij by (simp add: cell_zip2d has_shape_length has_shape_row)
  show "cell (and4 a b c d) i j = (cell a i j \<and> cell b i j \<and> cell c i j \<and> cell d i j)"
    using 1 2 3 by simp
qed

lemma amplitude_test_cell:
  assumes wf: "wf_dataset ds"
    and pres: "list_all (\<lambda>n. in_dataset ds n) [''amp1'', ''amp2'', ''amp3'', ''amp4'']"
    and ij: "i < length (depth ds)" "j < length (time ds)"
  shows "\<exists>a1 a2 a3 a4 m.
           grid_of AttributeError ds ''amp1'' = Inr a1 \<and> grid_of AttributeError ds ''amp2'' = Inr a2 \<and>
           grid_of AttributeError ds ''amp3'' = Inr a3 \<and> grid_of AttributeError ds ''amp4'' = Inr a4 \<and>
           amplitude_test ds threshold = Inr m \<and>
           has_shape (length (depth ds)) (length (time ds)) m \<and>
           (cell m i j \<longleftrightarrow> flt (cell a1 i j) threshold \<and> flt (cell a2 i j) threshold \<and>
                              flt (cell a3 i j) threshold \<and> flt (cell a4 i j) threshold)"
proof -
  from pres have p: "in_dataset ds ''amp1''" "in_dataset ds ''amp2''" "in_dataset ds ''amp3''"
      "in_dataset ds ''amp4''" by simp_all
  obtain a1 where a1: "grid_of AttributeError ds ''amp1'' = Inr a1"
      "has_shape (length (depth ds)) (length (time ds)) a1"
    using wf_grid[OF wf p(1)] by (auto simp: grid_names_def)
  obtain a2 where a2: "grid_of AttributeError ds ''amp2'' = Inr a2"
      "has_shape (length (depth ds)) (length (time ds)) a2"
    using wf_grid[OF wf p(2)] by (auto simp: grid_names_def)
  obtain a3 where a3: "grid_of AttributeError ds ''amp3'' = Inr a3"
      "has_shape (length (depth ds)) (length (time ds)) a3"
    using wf_grid[OF wf p(3)] by (auto simp: grid_names_def)
  obtain a4 where a4: "grid_of AttributeError ds ''amp4'' = Inr a4"
      "has_shape (length (depth ds)) (length (time ds)) a4"
    using wf_grid[OF wf p(4)] by (auto simp: grid_names_def)
  let ?m = "and4 (below threshold a1) (below threshold a2) (below threshold a3) (below threshold a4)"
  have run: "amplitude_test ds threshold = Inr ?m"
    using p a1(1) a2(1) a3(1) a4(1) by (simp add: amplitude_test_def)
  have sh: "has_shape (length (depth ds)) (length (time ds)) ?m"
    using a1(2) a2(2) a3(2) a4(2) by (intro and4_cell(1)) simp_all
  have c: "cell ?m i j = (flt (cell a1 i j) threshold \<and> flt (cell a2 i j) threshold \<and>
                          flt (cell a3 i j) threshold \<and> flt (cell a4 i j) threshold)"
    using a1(2) a2(2) a3(2) a4(2) ij
    by (subst and4_cell(2)[where nd="length (depth ds)" and nt="length (time ds)"])
       (simp_all add: cell_below)
  show ?thesis using a1(1) a2(1) a3(1) a4(1) run sh c by blast
qed

subsection \<open>Logger\<close>

text \<open>
  C5. The claim is that \<^verbatim>\<open>Logger.warning\<close> adds one to \<^verbatim>\<open>w_count\<close> for every message
  at every verbosity level. At level 2 the increment sits under the same guard as the
  console echo, so the counter stays where it was: a logger at level 2 with a count of 0
  still has a count of 0 after one warning, while the message is in the logbook.
\<close>

theorem Logger_warning_level2_not_counted:
  "w_count (Logger_warning [] False (Msg ''x'') (Logger_init [] 2)) = 0 \<and>
   logbook (Logger_warning [] False (Msg ''x'') (Logger_init [] 2)) = '' x'' @ newline"
  by (simp add: Logger_init_def)

lemma correlation_test_cell:
  assumes wf: "wf_dataset ds"
    and pres: "list_all (\<lambda>n. in_dataset ds n) [''corr1'', ''corr2'', ''corr3'', ''corr4'']"
    and ij: "i < length (depth ds)" "j < length (time ds)"
  shows "\<exists>c1 c2 c3 c4 m.
           grid_of AttributeError ds ''corr1'' = Inr c1 \<and> grid_of AttributeError ds ''corr2'' = Inr c2 \<and>
           grid_of AttributeError ds ''corr3'' = Inr c3 \<and> grid_of AttributeError ds ''corr4'' = Inr c4 \<and>
           correlation_test ds threshold = Inr m \<and>
           has_shape (length (depth ds)) (length (time ds)) m \<and>
           (cell m i j \<longleftrightarrow> flt (cell c1 i j) threshold \<and> flt (cell c2 i j) threshold \<and>
                              flt (cell c3 i j) threshold \<and> flt (cell c4 i j) threshold)"
proof -
  from pres have p: "in_dataset ds ''corr1''" "in_dataset ds ''corr2''" "in_dataset ds ''corr3''"
      "in_dataset ds ''corr4''" by simp_all
  obtain c1 where c1: "grid_of AttributeError ds ''corr1'' = Inr c1"
      "has_shape (length (depth ds)) (length (time ds)) c1"
    using wf_grid[OF wf p(1)] by (auto simp: grid_names_def)
  obtain c2 where c2: "grid_of AttributeError ds ''corr2'' = Inr c2"
      "has_shape (length (depth ds)) (length (time ds)) c2"
    using wf_grid[OF wf p(2)] by (auto simp: grid_names_def)
  obtain c3 where c3: "grid_of AttributeError ds ''corr3'' = Inr c3"
      "has_shape (length (depth ds)) (length (time ds)) c3"
    using wf_grid[OF wf p(3)] by (auto simp: grid_names_def)
  obtain c4 where c4: "grid_of AttributeError ds ''corr4'' = Inr c4"
      "has_shape (length (depth ds)) (length (time ds)) c4"
    using wf_grid[OF wf p(4)] by (auto simp: grid_names_def)
  let ?m = "and4 (below threshold c1) (below threshold c2) (below threshold c3) (below threshold c4)"
  have run: "correlation_test ds threshold = Inr ?m"
    using p c1(1) c2(1) c3(1) c4(1) by (simp add: correlation_test_def)
  have sh: "has_shape (length (depth ds)) (length (time ds)) ?m"
    using c1(2) c2(2) c3(2) c4(2) by (intro and4_cell(1)) simp_all
  have c: "cell ?m i j = (flt (cell c1 i j) threshold \<and> flt (cell c2 i j) threshold \<and>
                          flt (cell c3 i j) threshold \<and> flt (cell c4 i j) threshold)"
    using c1(2) c2(2) c3(2) c4(2) ij
    by (subst and4_cell(2)[where nd="length (depth ds)" and nt="length (time ds)"])
       (simp_all add: cell_below)
  show ?thesis using c1(1) c2(1) c3(1) c4(1) run sh c by blast
qed

lemmas array_eval = shape_def has_shape_def cell_def full_def tile_def map2d_def zip2d_def
  imap2d_def mask_set_def mask_set1_def where_nan_def rows_with_def array_truth_def
  bitwise_or3_def enumerate_eq_zip

lemmas dataset_eval = in_dataset_def grid_of_def series_of_def set_data_def new_var_def
  set_vattr_def set_attr_def get_attr_def

lemmas test_eval = below_def and4_def correlation_test_def amplitude_test_def
  percentgood_test_def from_mean_def roll_test_def pitch_test_def greater_where_def
  horizontal_vel_test_def vertical_vel_test_def error_vel_test_def vb_channel_def
  vertical_beam_test_def temperature_test_def pressure_test_def fgt_def fsub_def
  plausible_at_def plausible_mask_def mask_component_def implausible_round_def set_implausible_vel_to_nan_def
  IMPLAUSIBLE_VEL_TRESHOLD_def not_finite_def

lemmas example_eval = example_env_def example_ds_def example_vars_def without_def

lemma wf_example: "wf_dataset example_ds"
  by (simp add: example_eval wf_dataset_def wf_var_def has_shape_def
      is_D2_def is_D1_def grid_names_def series_names_def)

text \<open>
  C6. In a dataset that holds \<^verbatim>\<open>amp1\<close> .. \<^verbatim>\<open>amp4\<close> the amplitude test returns a mask,
  and the mask marks a depth/time cell exactly when each of the four beams is strictly
  below the threshold there; the correlation test does the same on \<^verbatim>\<open>corr1\<close> ..
  \<^verbatim>\<open>corr4\<close>. So a cell with one beam at or above the threshold is not marked.
\<close>

theorem four_beam_tests_mark_all_below:
  assumes "wf_dataset ds" "i < length (depth ds)" "j < length (time ds)"
  shows "(list_all (\<lambda>n. in_dataset ds n) [''amp1'', ''amp2'', ''amp3'', ''amp4''] \<longrightarrow>
          (\<exists>a1 a2 a3 a4 m.
             grid_of AttributeError ds ''amp1'' = Inr a1 \<and> grid_of AttributeError ds ''amp2'' = Inr a2 \<and>
             grid_of AttributeError ds ''amp3'' = Inr a3 \<and> grid_of AttributeError ds ''amp4'' = Inr a4 \<and>
             amplitude_test ds threshold = Inr m \<and>
             has_shape (length (depth ds)) (length (time ds)) m \<and>
             (cell m i j \<longleftrightarrow> flt (cell a1 i j) threshold \<and> flt (cell a2 i j) threshold \<and>
                                flt (cell a3 i j) threshold \<and> flt (cell a4 i j) threshold)))
       \<and> (list_all (\<lambda>n. in_dataset ds n) [''corr1'', ''corr2'', ''corr3'', ''corr4''] \<longrightarrow>
          (\<exists>c1 c2 c3 c4 m.
             grid_of AttributeError ds ''corr1'' = Inr c1 \<and> grid_of AttributeError ds ''corr2'' = Inr c2 \<and>
             grid_of AttributeError ds ''corr3'' = Inr c3 \<and> grid_of AttributeError ds ''corr4'' = Inr c4 \<and>
             correlation_test ds threshold = Inr m \<and>
             has_shape (length (depth ds)) (length (time ds)) m \<and>
             (cell m i j \<longleftrightarrow> flt (cell c1 i j) threshold \<and> flt (cell c2 i j) threshold \<and>
                                flt (cell c3 i j) threshold \<and> flt (cell c4 i j) threshold)))"
  using amplitude_test_cell[OF assms(1) _ assms(2,3)] correlation_test_cell[OF assms(1) _ assms(2,3)]
  by blast

theorem four_beam_tests_mark_all_below_witness:
  "wf_dataset example_ds \<and> (1::nat) < length (time example_ds) \<and> (0::nat) < length (depth example_ds)
   \<and> list_all (\<lambda>n. in_dataset example_ds n) [''amp1'', ''amp2'', ''amp3'', ''amp4'']
   \<and> list_all (\<lambda>n. in_dataset example_ds n) [''corr1'', ''corr2'', ''corr3'', ''corr4'']
   \<and> (\<exists>m. amplitude_test example_ds (Fin 30) = Inr m \<and> cell m 0 0 \<and> \<not> cell m 0 1)
   \<and> (\<exists>m. correlation_test example_ds (Fin 64) = Inr m \<and> \<not> cell m 0 1)"
proof -
  have h: "wf_dataset example_ds" "(0::nat) < length (depth example_ds)"
    "(1::nat) < length (time example_ds)"
    by (simp_all add: wf_example) (simp_all add: example_eval)
  have p: "list_all (\<lambda>n. in_dataset example_ds n) [''amp1'', ''amp2'', ''amp3'', ''amp4'']"
    "list_all (\<lambda>n. in_dataset example_ds n) [''corr1'', ''corr2'', ''corr3'', ''corr4'']"
    by (simp_all add: example_eval in_dataset_def)
  have g: "grid_of AttributeError example_ds ''amp1'' = Inr [[Fin 10, Fin 10]]"
    "grid_of AttributeError example_ds ''amp2'' = Inr [[Fin 10, Fin 10]]"
    "grid_of AttributeError example_ds ''amp3'' = Inr [[Fin 10, Fin 10]]"
    "grid_of AttributeError example_ds ''amp4'' = Inr [[Fin 10, Fin 50]]"
    "grid_of AttributeError example_ds ''corr1'' = Inr [[Fin 100, Fin 100]]"
    "grid_of AttributeError example_ds ''corr2'' = Inr [[Fin 100, Fin 100]]"
    "grid_of AttributeError example_ds ''corr3'' = Inr [[Fin 100, Fin 100]]"
    "grid_of AttributeError example_ds ''corr4'' = Inr [[Fin 100, Fin 100]]"
    by (simp_all add: example_eval grid_of_def)
  have h0: "(0::nat) < length (time example_ds)"
    by (simp add: example_eval)
  have a0: "\<exists>m. amplitude_test example_ds (Fin 30) = Inr m \<and> cell m 0 0"
    using four_beam_tests_mark_all_below[OF h(1) h(2) h0, of "Fin 30"] p g
    by (auto simp: cell_def)
  have a1: "\<exists>m. amplitude_test example_ds (Fin 30) = Inr m \<and> \<not> cell m 0 1"
    using four_beam_tests_mark_all_below[OF h(1) h(2) h(3), of "Fin 30"] p g
    by (auto simp: cell_def)
  have c1: "\<exists>m. correlation_test example_ds (Fin 64) = Inr m \<and> \<not> cell m 0 1"
    using four_beam_tests_mark_all_below[OF h(1) h(2) h(3), of "Fin 64"] p g
    by (auto simp: cell_def)
  from a0 a1 have "\<exists>m. amplitude_test example_ds (Fin 30) = Inr m \<and> cell m 0 0 \<and> \<not> cell m 0 1"
    by auto
  with h p c1 show ?thesis by blast
qed

text \<open>
  C2. The claim is that an enabled per-beam test whose variables are missing is skipped
  with a warning. The branch that should log the warning calls \<^verbatim>\<open>l.warnings\<close>, which
  the logger does not have: on the example dataset without \<^verbatim>\<open>amp1\<close>, and with the
  default thresholds, \<^verbatim>\<open>adcp_quality_control\<close> raises AttributeError.
\<close>

theorem missing_amp_raises:
  "adcp_quality_control example_env default_params (without ''amp1'' example_ds) (Logger_init [] 0)
     = Inl AttributeError"
  by (simp add: adcp_quality_control_def run_motion_def steps_def amp_step_def threshold_step_def
      default_params_def example_eval array_eval dataset_eval test_eval)

lemma grid_of_Inr_lookup:
  "grid_of e ds n = Inr g \<Longrightarrow> \<exists>a. map_of (vars ds) n = Some (Var (D2 g) a)"
  by (auto simp: grid_of_def split: option.splits variable.splits vdata.splits)

lemma grid_of_error_irrelevant:
  "grid_of e ds n = Inr g \<Longrightarrow> grid_of e' ds n = Inr g"
  by (auto simp: grid_of_def split: option.splits variable.splits vdata.splits)

lemma grid_of_set_data:
  assumes "grid_of e' ds n = Inr g0"
  shows "grid_of e (set_data n (D2 g) ds) m = (if m = n then Inr g else grid_of e ds m)"
proof -
  from grid_of_Inr_lookup[OF assms] obtain a where "map_of (vars ds) n = Some (Var (D2 g0) a)" ..
  then show ?thesis by (simp add: set_data_def grid_of_def update_conv')
qed

lemma set_data_coords [simp]:
  "depth (set_data n d ds) = depth ds" "time (set_data n d ds) = time ds"
  "attrs (set_data n d ds) = attrs ds"
  by (simp_all add: set_data_def split: option.splits)

lemma plausible_at_NaN [simp]: "\<not> plausible_at t NaN"
  by (simp add: plausible_at_def)

lemma plausible_at_finite: "plausible_at t x \<Longrightarrow> isfinite x"
  by (cases x; cases t) (simp_all add: plausible_at_def fgt_def)

lemma plausible_at_abs: "plausible_at t x \<Longrightarrow> flt (fabs x) t"
  by (cases x; cases t) (auto simp: plausible_at_def fgt_def)

lemma shape_where_nan: "shape g = shape m \<Longrightarrow> shape (where_nan g m) = shape g"
  by (simp add: where_nan_def shape_zip2d)

lemma shape_plausible_mask [simp]: "shape (plausible_mask t g) = shape g"
  by (simp add: plausible_mask_def)

lemma has_shape_map2d [simp]: "has_shape nd nt (map2d f g) = has_shape nd nt g"
  by (simp add: has_shape_iff)

lemma cell_where_plausible:
  assumes "has_shape nd nt g" "has_shape nd nt c" "i < nd" "j < nt"
  shows "cell (where_nan g (plausible_mask t c)) i j
           = (if plausible_at t (cell c i j) then cell g i j else NaN)"
proof -
  have m: "has_shape nd nt (plausible_mask t c)"
    using assms(2) by (simp add: plausible_mask_def)
  have "cell (plausible_mask t c) i j = plausible_at t (cell c i j)"
    using assms by (simp add: plausible_mask_def cell_map2d has_shape_length has_shape_row)
  then show ?thesis
    using assms m by (simp add: where_nan_def cell_zip2d has_shape_length has_shape_row)
qed

lemma has_shape_where_plausible:
  "has_shape nd nt g \<Longrightarrow> has_shape nd nt c \<Longrightarrow> has_shape nd nt (where_nan g (plausible_mask t c))"
  by (simp add: has_shape_iff shape_where_nan)

lemma implausible_round_run:
  assumes u: "grid_of KeyError ds ''u'' = Inr gu"
    and v: "grid_of KeyError ds ''v'' = Inr gv"
    and w: "grid_of KeyError ds ''w'' = Inr gw"
    and c: "grid_of KeyError ds c = Inr gc"
  shows "\<exists>ds'. implausible_round thres c ds = Inr ds'
           \<and> grid_of KeyError ds' ''u'' = Inr (where_nan gu (plausible_mask thres gc))
           \<and> grid_of KeyError ds' ''v'' = Inr (where_nan gv (plausible_mask thres gc))
           \<and> grid_of KeyError ds' ''w'' = Inr (where_nan gw (plausible_mask thres gc))
           \<and> depth ds' = depth ds \<and> time ds' = time ds"
proof -
  let ?pm = "plausible_mask thres gc"
  let ?d1 = "set_data ''u'' (D2 (where_nan gu ?pm)) ds"
  let ?d2 = "set_data ''v'' (D2 (where_nan gv ?pm)) ?d1"
  let ?d3 = "set_data ''w'' (D2 (where_nan gw ?pm)) ?d2"
  have v1: "grid_of KeyError ?d1 ''v'' = Inr gv" and w1: "grid_of KeyError ?d1 ''w'' = Inr gw"
    using v w by (simp_all add: grid_of_set_data[OF u])
  have w2: "grid_of KeyError ?d2 ''w'' = Inr gw"
    using w1 by (simp add: grid_of_set_data[OF v1])
  have run: "implausible_round thres c ds = Inr ?d3"
    using u v1 w2 c by (simp add: implausible_round_def mask_component_def)
  have "grid_of KeyError ?d3 ''u'' = Inr (where_nan gu ?pm)"
    by (simp add: grid_of_set_data[OF w2] grid_of_set_data[OF v1] grid_of_set_data[OF u])
  moreover have "grid_of KeyError ?d3 ''v'' = Inr (where_nan gv ?pm)"
    by (simp add: grid_of_set_data[OF w2] grid_of_set_data[OF v1])
  moreover have "grid_of KeyError ?d3 ''w'' = Inr (where_nan gw ?pm)"
    by (simp add: grid_of_set_data[OF w2])
  ultimately show ?thesis using run by simp
qed

text \<open>The three rounds of \<^verbatim>\<open>set_implausible_vel_to_nan\<close>, cell by cell.\<close>

lemma set_implausible_run:
  assumes u: "grid_of KeyError ds ''u'' = Inr gu"
    and v: "grid_of KeyError ds ''v'' = Inr gv"
    and w: "grid_of KeyError ds ''w'' = Inr gw"
    and su: "has_shape nd nt gu" and sv: "has_shape nd nt gv" and sw: "has_shape nd nt gw"
  shows "\<exists>ds' u' v' w'. set_implausible_vel_to_nan ds thres = Inr ds'
           \<and> grid_of KeyError ds' ''u'' = Inr u' \<and> grid_of KeyError ds' ''v'' = Inr v'
           \<and> grid_of KeyError ds' ''w'' = Inr w'
           \<and> has_shape nd nt u' \<and> has_shape nd nt v' \<and> has_shape nd nt w'
           \<and> depth ds' = depth ds \<and> time ds' = time ds
           \<and> (\<forall>i j. i < nd \<longrightarrow> j < nt \<longrightarrow>
                (if plausible_at thres (cell gu i j) \<and> plausible_at thres (cell gv i j)
                    \<and> plausible_at thres (cell gw i j)
                 then cell u' i j = cell gu i j \<and> cell v' i j = cell gv i j \<and> cell w' i j = cell gw i j
                 else cell u' i j = NaN \<and> cell v' i j = NaN \<and> cell w' i j = NaN))"
proof -
  let ?P = "plausible_mask thres"
  let ?u1 = "where_nan gu (?P gu)" and ?v1 = "where_nan gv (?P gu)" and ?w1 = "where_nan gw (?P gu)"
  let ?u2 = "where_nan ?u1 (?P ?v1)" and ?v2 = "where_nan ?v1 (?P ?v1)" and ?w2 = "where_nan ?w1 (?P ?v1)"
  let ?u3 = "where_nan ?u2 (?P ?w2)" and ?v3 = "where_nan ?v2 (?P ?w2)" and ?w3 = "where_nan ?w2 (?P ?w2)"
  obtain d1 where d1: "implausible_round thres ''u'' ds = Inr d1"
      "grid_of KeyError d1 ''u'' = Inr ?u1" "grid_of KeyError d1 ''v'' = Inr ?v1"
      "grid_of KeyError d1 ''w'' = Inr ?w1" "depth d1 = depth ds" "time d1 = time ds"
    using implausible_round_run[OF u v w u] by blast
  obtain d2 where d2: "implausible_round thres ''v'' d1 = Inr d2"
      "grid_of KeyError d2 ''u'' = Inr ?u2" "grid_of KeyError d2 ''v'' = Inr ?v2"
      "grid_of KeyError d2 ''w'' = Inr ?w2" "depth d2 = depth d1" "time d2 = time d1"
    using implausible_round_run[OF d1(2) d1(3) d1(4) d1(3)] by blast
  obtain d3 where d3: "implausible_round thres ''w'' d2 = Inr d3"
      "grid_of KeyError d3 ''u'' = Inr ?u3" "grid_of KeyError d3 ''v'' = Inr ?v3"
      "grid_of KeyError d3 ''w'' = Inr ?w3" "depth d3 = depth d2" "time d3 = time d2"
    using implausible_round_run[OF d2(2) d2(3) d2(4) d2(4)] by blast
  have run: "set_implausible_vel_to_nan ds thres = Inr d3"
    using d1(1) d2(1) d3(1) by (simp add: set_implausible_vel_to_nan_def)
  have s1: "has_shape nd nt ?u1" "has_shape nd nt ?v1" "has_shape nd nt ?w1"
    using su sv sw by (simp_all add: has_shape_where_plausible)
  have s2: "has_shape nd nt ?u2" "has_shape nd nt ?v2" "has_shape nd nt ?w2"
    using s1 by (simp_all add: has_shape_where_plausible)
  have s3: "has_shape nd nt ?u3" "has_shape nd nt ?v3" "has_shape nd nt ?w3"
    using s2 by (simp_all add: has_shape_where_plausible)
  have cells: "if plausible_at thres (cell gu i j) \<and> plausible_at thres (cell gv i j)
                    \<and> plausible_at thres (cell gw i j)
               then cell ?u3 i j = cell gu i j \<and> cell ?v3 i j = cell gv i j \<and> cell ?w3 i j = cell gw i j
               else cell ?u3 i j = NaN \<and> cell ?v3 i j = NaN \<and> cell ?w3 i j = NaN"
    if ij: "i < nd" "j < nt" for i j
  proof -
    have c1: "cell ?u1 i j = (if plausible_at thres (cell gu i j) then cell gu i j else NaN)"
        "cell ?v1 i j = (if plausible_at thres (cell gu i j) then cell gv i j else NaN)"
        "cell ?w1 i j = (if plausible_at thres (cell gu i j) then cell gw i j else NaN)"
      using su sv sw ij by (simp_all add: cell_where_plausible[where nd=nd and nt=nt])
    have c2: "cell ?u2 i j = (if plausible_at thres (cell ?v1 i j) then cell ?u1 i j else NaN)"
        "cell ?v2 i j = (if plausible_at thres (cell ?v1 i j) then cell ?v1 i j else NaN)"
        "cell ?w2 i j = (if plausible_at thres (cell ?v1 i j) then cell ?w1 i j else NaN)"
      using s1 ij by (simp_all add: cell_where_plausible[where nd=nd and nt=nt])
    have c3: "cell ?u3 i j = (if plausible_at thres (cell ?w2 i j) then cell ?u2 i j else NaN)"
        "cell ?v3 i j = (if plausible_at thres (cell ?w2 i j) then cell ?v2 i j else NaN)"
        "cell ?w3 i j = (if plausible_at thres (cell ?w2 i j) then cell ?w2 i j else NaN)"
      using s2 ij by (simp_all add: cell_where_plausible[where nd=nd and nt=nt])
    show ?thesis
      unfolding c3 c2 c1 by simp
  qed
  have dt: "depth d3 = depth ds" "time d3 = time ds"
    using d1(5,6) d2(5,6) d3(5,6) by simp_all
  from cells have every:
    "\<forall>i j. i < nd \<longrightarrow> j < nt \<longrightarrow>
       (if plausible_at thres (cell gu i j) \<and> plausible_at thres (cell gv i j)
           \<and> plausible_at thres (cell gw i j)
        then cell ?u3 i j = cell gu i j \<and> cell ?v3 i j = cell gv i j \<and> cell ?w3 i j = cell gw i j
        else cell ?u3 i j = NaN \<and> cell ?v3 i j = NaN \<and> cell ?w3 i j = NaN)"
    by blast
  show ?thesis
    apply (rule exI[of _ d3], rule exI[of _ ?u3], rule exI[of _ ?v3], rule exI[of _ ?w3])
    apply (intro conjI)
    apply (rule run d3(2) d3(3) d3(4) s3 dt every)+
    done
qed

text \<open>
  C10. After \<^verbatim>\<open>set_implausible_vel_to_nan\<close>, at every depth/time cell \<^verbatim>\<open>u\<close>, \<^verbatim>\<open>v\<close>
  and \<^verbatim>\<open>w\<close> are either all not-a-number, or all finite and of absolute value strictly
  below the threshold. A value that is not finite in one of the three components of the
  input makes all three not-a-number, so the three variables have the same mask of
  not-a-number cells.
\<close>

theorem implausible_velocity_joint_mask:
  assumes "wf_dataset ds" "in_dataset ds ''u''" "in_dataset ds ''v''" "in_dataset ds ''w''"
    and "i < length (depth ds)" "j < length (time ds)"
  shows "\<exists>u v w ds' u' v' w'.
           grid_of KeyError ds ''u'' = Inr u \<and> grid_of KeyError ds ''v'' = Inr v \<and>
           grid_of KeyError ds ''w'' = Inr w \<and>
           set_implausible_vel_to_nan ds thres = Inr ds' \<and>
           grid_of KeyError ds' ''u'' = Inr u' \<and> grid_of KeyError ds' ''v'' = Inr v' \<and>
           grid_of KeyError ds' ''w'' = Inr w' \<and>
           ((cell u' i j = NaN \<and> cell v' i j = NaN \<and> cell w' i j = NaN) \<or>
            (isfinite (cell u' i j) \<and> flt (fabs (cell u' i j)) thres \<and>
             isfinite (cell v' i j) \<and> flt (fabs (cell v' i j)) thres \<and>
             isfinite (cell w' i j) \<and> flt (fabs (cell w' i j)) thres)) \<and>
           (\<not> isfinite (cell u i j) \<or> \<not> isfinite (cell v i j) \<or> \<not> isfinite (cell w i j) \<longrightarrow>
              cell u' i j = NaN \<and> cell v' i j = NaN \<and> cell w' i j = NaN) \<and>
           (cell u' i j = NaN \<longleftrightarrow> cell v' i j = NaN) \<and>
           (cell v' i j = NaN \<longleftrightarrow> cell w' i j = NaN)"
proof -
  let ?nd = "length (depth ds)" and ?nt = "length (time ds)"
  obtain u where u: "grid_of KeyError ds ''u'' = Inr u" "has_shape ?nd ?nt u"
    using wf_grid[OF assms(1) assms(2)] by (auto simp: grid_names_def)
  obtain v where v: "grid_of KeyError ds ''v'' = Inr v" "has_shape ?nd ?nt v"
    using wf_grid[OF assms(1) assms(3)] by (auto simp: grid_names_def)
  obtain w where w: "grid_of KeyError ds ''w'' = Inr w" "has_shape ?nd ?nt w"
    using wf_grid[OF assms(1) assms(4)] by (auto simp: grid_names_def)
  obtain ds' u' v' w' where run: "set_implausible_vel_to_nan ds thres = Inr ds'"
      "grid_of KeyError ds' ''u'' = Inr u'" "grid_of KeyError ds' ''v'' = Inr v'"
      "grid_of KeyError ds' ''w'' = Inr w'"
    and cells: "\<forall>i j. i < ?nd \<longrightarrow> j < ?nt \<longrightarrow>
                (if plausible_at thres (cell u i j) \<and> plausible_at thres (cell v i j)
                    \<and> plausible_at thres (cell w i j)
                 then cell u' i j = cell u i j \<and> cell v' i j = cell v i j \<and> cell w' i j = cell w i j
                 else cell u' i j = NaN \<and> cell v' i j = NaN \<and> cell w' i j = NaN)"
    using set_implausible_run[OF u(1) v(1) w(1) u(2) v(2) w(2), of thres] by blast
  from cells assms(5,6) have c:
    "if plausible_at thres (cell u i j) \<and> plausible_at thres (cell v i j)
        \<and> plausible_at thres (cell w i j)
     then cell u' i j = cell u i j \<and> cell v' i j = cell v i j \<and> cell w' i j = cell w i j
     else cell u' i j = NaN \<and> cell v' i j = NaN \<and> cell w' i j = NaN"
    by blast
  have fin: "isfinite x \<Longrightarrow> x \<noteq> NaN" for x by (cases x) simp_all
  have key:
    "((cell u' i j = NaN \<and> cell v' i j = NaN \<and> cell w' i j = NaN) \<or>
      (isfinite (cell u' i j) \<and> flt (fabs (cell u' i j)) thres \<and>
       isfinite (cell v' i j) \<and> flt (fabs (cell v' i j)) thres \<and>
       isfinite (cell w' i j) \<and> flt (fabs (cell w' i j)) thres)) \<and>
     (\<not> isfinite (cell u i j) \<or> \<not> isfinite (cell v i j) \<or> \<not> isfinite (cell w i j) \<longrightarrow>
        cell u' i j = NaN \<and> cell v' i j = NaN \<and> cell w' i j = NaN) \<and>
     (cell u' i j = NaN \<longleftrightarrow> cell v' i j = NaN) \<and>
     (cell v' i j = NaN \<longleftrightarrow> cell w' i j = NaN)"
  proof (cases "plausible_at thres (cell u i j) \<and> plausible_at thres (cell v i j)
        \<and> plausible_at thres (cell w i j)")
    case True
    with c have eq: "cell u' i j = cell u i j" "cell v' i j = cell v i j" "cell w' i j = cell w i j"
      by simp_all
    from True have f: "isfinite (cell u i j)" "isfinite (cell v i j)" "isfinite (cell w i j)"
      and a: "flt (fabs (cell u i j)) thres" "flt (fabs (cell v i j)) thres"
        "flt (fabs (cell w i j)) thres"
      by (auto intro: plausible_at_finite plausible_at_abs)
    show ?thesis using eq f a fin by simp
  next
    case False
    with c show ?thesis by simp
  qed
  show ?thesis
    apply (rule exI[of _ u], rule exI[of _ v], rule exI[of _ w], rule exI[of _ ds'],
        rule exI[of _ u'], rule exI[of _ v'], rule exI[of _ w'])
    using u(1) v(1) w(1) run key by blast
qed

theorem implausible_velocity_joint_mask_witness:
  "wf_dataset example_ds \<and> in_dataset example_ds ''u'' \<and> in_dataset example_ds ''v''
   \<and> in_dataset example_ds ''w'' \<and> (0::nat) < length (depth example_ds)
   \<and> (1::nat) < length (time example_ds)
   \<and> \<not> isfinite (cell [[Fin 0, NaN]] 0 1)
   \<and> grid_of KeyError example_ds ''w'' = Inr [[Fin 0, NaN]]
   \<and> (\<exists>ds' u' v' w'. set_implausible_vel_to_nan example_ds IMPLAUSIBLE_VEL_TRESHOLD = Inr ds' \<and>
         grid_of KeyError ds' ''u'' = Inr u' \<and> grid_of KeyError ds' ''v'' = Inr v' \<and>
         grid_of KeyError ds' ''w'' = Inr w' \<and>
         cell u' 0 1 = NaN \<and> cell v' 0 1 = NaN \<and> cell w' 0 1 = NaN)"
proof -
  have h: "wf_dataset example_ds" "in_dataset example_ds ''u''" "in_dataset example_ds ''v''"
    "in_dataset example_ds ''w''" "(0::nat) < length (depth example_ds)"
    "(1::nat) < length (time example_ds)"
    by (simp_all add: wf_example) (simp_all add: example_eval in_dataset_def)
  have g: "grid_of KeyError example_ds ''w'' = Inr [[Fin 0, NaN]]"
    by (simp add: example_eval grid_of_def)
  have n: "\<not> isfinite (cell [[Fin 0, NaN]] 0 1)"
    by (simp add: cell_def)
  from implausible_velocity_joint_mask[OF h, of IMPLAUSIBLE_VEL_TRESHOLD] g n
  have "\<exists>ds' u' v' w'. set_implausible_vel_to_nan example_ds IMPLAUSIBLE_VEL_TRESHOLD = Inr ds' \<and>
         grid_of KeyError ds' ''u'' = Inr u' \<and> grid_of KeyError ds' ''v'' = Inr v' \<and>
         grid_of KeyError ds' ''w'' = Inr w' \<and>
         cell u' 0 1 = NaN \<and> cell v' 0 1 = NaN \<and> cell w' 0 1 = NaN"
    by auto
  with h g n show ?thesis by blast
qed

lemma series_of_set_data:
  "m \<noteq> n \<Longrightarrow> series_of e (set_data n d ds) m = series_of e ds m"
  by (simp add: set_data_def series_of_def update_conv' split: option.splits)

lemma rows_with_run:
  assumes "has_shape nd nt g" "length xs = nt"
  shows "rows_with f g xs = Inr (map (\<lambda>row. map2 f row xs) g)"
    and "has_shape nd nt (map (\<lambda>row. map2 f row xs) g)"
    and "i < nd \<Longrightarrow> j < nt \<Longrightarrow> cell (map (\<lambda>row. map2 f row xs) g) i j = f (cell g i j) (xs ! j)"
proof -
  show "rows_with f g xs = Inr (map (\<lambda>row. map2 f row xs) g)"
    using assms by (simp add: rows_with_def has_shape_def)
  show "has_shape nd nt (map (\<lambda>row. map2 f row xs) g)"
    using assms by (auto simp: has_shape_def list_all_iff)
  assume "i < nd" "j < nt"
  then show "cell (map (\<lambda>row. map2 f row xs) g) i j = f (cell g i j) (xs ! j)"
    using assms by (simp add: cell_def has_shape_length has_shape_row)
qed

lemma bt_correct_run:
  assumes "grid_of KeyError ds field = Inr g" "series_of KeyError ds (''bt_'' @ field) = Inr bt"
    and "has_shape nd nt g" "length bt = nt"
  shows "bt_correct field ds = Inr (set_data field (D2 (map (\<lambda>row. map2 fsub row bt) g)) ds)"
  using assms by (simp add: bt_correct_def rows_with_run(1)[where nd=nd and nt=nt])

lemma motion_correction_bt_run:
  assumes u: "grid_of KeyError ds ''u'' = Inr u" "has_shape nd nt u"
    and v: "grid_of KeyError ds ''v'' = Inr v" "has_shape nd nt v"
    and w: "grid_of KeyError ds ''w'' = Inr w" "has_shape nd nt w"
    and bu: "series_of KeyError ds ''bt_u'' = Inr bu" "length bu = nt"
    and bv: "series_of KeyError ds ''bt_v'' = Inr bv" "length bv = nt"
    and bw: "series_of KeyError ds ''bt_w'' = Inr bw" "length bw = nt"
  shows "\<exists>ds'. motion_correction ds lg ''bt''
            = Inr (ds', Logger_log [] False (Msg ''Motion correction carried out with bottom track'') lg)
          \<and> grid_of KeyError ds' ''u'' = Inr (map (\<lambda>row. map2 fsub row bu) u)
          \<and> grid_of KeyError ds' ''v'' = Inr (map (\<lambda>row. map2 fsub row bv) v)
          \<and> grid_of KeyError ds' ''w'' = Inr (map (\<lambda>row. map2 fsub row bw) w)
          \<and> depth ds' = depth ds \<and> time ds' = time ds"
proof -
  let ?u' = "map (\<lambda>row. map2 fsub row bu) u"
  let ?v' = "map (\<lambda>row. map2 fsub row bv) v"
  let ?w' = "map (\<lambda>row. map2 fsub row bw) w"
  let ?d1 = "set_data ''u'' (D2 ?u') ds"
  let ?d2 = "set_data ''v'' (D2 ?v') ?d1"
  let ?d3 = "set_data ''w'' (D2 ?w') ?d2"
  have s1: "bt_correct ''u'' ds = Inr ?d1"
    using bt_correct_run[OF u(1) _ u(2) bu(2)] bu(1) by simp
  have v1: "grid_of KeyError ?d1 ''v'' = Inr v" and w1: "grid_of KeyError ?d1 ''w'' = Inr w"
    using v(1) w(1) by (simp_all add: grid_of_set_data[OF u(1)])
  have bv1: "series_of KeyError ?d1 ''bt_v'' = Inr bv" and bw1: "series_of KeyError ?d1 ''bt_w'' = Inr bw"
    using bv(1) bw(1) by (simp_all add: series_of_set_data)
  have s2: "bt_correct ''v'' ?d1 = Inr ?d2"
    using bt_correct_run[OF v1 _ v(2) bv(2)] bv1 by simp
  have w2: "grid_of KeyError ?d2 ''w'' = Inr w"
    using w1 by (simp add: grid_of_set_data[OF v1])
  have bw2: "series_of KeyError ?d2 ''bt_w'' = Inr bw"
    using bw1 by (simp add: series_of_set_data)
  have s3: "bt_correct ''w'' ?d2 = Inr ?d3"
    using bt_correct_run[OF w2 _ w(2) bw(2)] bw2 by simp
  have present: "list_all (\<lambda>v. in_dataset ds (''bt_'' @ v)) [''u'', ''v'', ''w'']"
    using bu(1) bv(1) bw(1)
    by (auto simp: in_dataset_def series_of_def split: option.splits)
  have run: "motion_correction ds lg ''bt''
      = Inr (?d3, Logger_log [] False (Msg ''Motion correction carried out with bottom track'') lg)"
    using present s1 s2 s3 by (simp add: motion_correction_def)
  have gu: "grid_of KeyError ?d3 ''u'' = Inr ?u'"
    by (simp add: grid_of_set_data[OF w2] grid_of_set_data[OF v1] grid_of_set_data[OF u(1)])
  have gv: "grid_of KeyError ?d3 ''v'' = Inr ?v'"
    by (simp add: grid_of_set_data[OF w2] grid_of_set_data[OF v1])
  have gw: "grid_of KeyError ?d3 ''w'' = Inr ?w'"
    by (simp add: grid_of_set_data[OF w2])
  show ?thesis using run gu gv gw by simp
qed

lemma motion_correction_bt_missing:
  assumes "\<not> list_all (\<lambda>n. in_dataset ds n) [''bt_u'', ''bt_v'', ''bt_w'']"
  shows "motion_correction ds lg ''bt''
     = Inr (ds, Logger_warning [] False
                  (Msg ''Motion correction aborded. Bottom velocity (bt_u, bt_v, bt_w) missing'') lg)"
  using assms by (auto simp: motion_correction_def)

text \<open>
  C9. \<^verbatim>\<open>motion_correction\<close> in mode \<^verbatim>\<open>bt\<close>, with the module's logger (level 0).
  When one of \<^verbatim>\<open>bt_u\<close>, \<^verbatim>\<open>bt_v\<close>, \<^verbatim>\<open>bt_w\<close> is absent the dataset comes back as it
  was, the warning counter goes up by one and the logbook gains the one line that names
  the missing bottom velocity. When the three are present (and \<^verbatim>\<open>u\<close>, \<^verbatim>\<open>v\<close>, \<^verbatim>\<open>w\<close>
  are), each cell of \<^verbatim>\<open>u\<close>, \<^verbatim>\<open>v\<close>, \<^verbatim>\<open>w\<close> becomes its value minus the bottom-track
  component of its time sample, whatever the depth, and no warning is counted.
\<close>

theorem motion_correction_bt:
  assumes "level lg = 0"
  shows "(\<not> list_all (\<lambda>n. in_dataset ds n) [''bt_u'', ''bt_v'', ''bt_w''] \<longrightarrow>
            (\<exists>lg'. motion_correction ds lg ''bt'' = Inr (ds, lg') \<and>
                   w_count lg' = w_count lg + 1 \<and>
                   logbook lg' = logbook lg
                     @ '' Motion correction aborded. Bottom velocity (bt_u, bt_v, bt_w) missing''
                     @ newline))
       \<and> (wf_dataset ds \<and>
          list_all (\<lambda>n. in_dataset ds n) [''u'', ''v'', ''w'', ''bt_u'', ''bt_v'', ''bt_w''] \<and>
          i < length (depth ds) \<and> j < length (time ds) \<longrightarrow>
            (\<exists>u v w bu bv bw ds' lg' u' v' w'.
               grid_of KeyError ds ''u'' = Inr u \<and> grid_of KeyError ds ''v'' = Inr v \<and>
               grid_of KeyError ds ''w'' = Inr w \<and>
               series_of KeyError ds ''bt_u'' = Inr bu \<and> series_of KeyError ds ''bt_v'' = Inr bv \<and>
               series_of KeyError ds ''bt_w'' = Inr bw \<and>
               motion_correction ds lg ''bt'' = Inr (ds', lg') \<and> w_count lg' = w_count lg \<and>
               grid_of KeyError ds' ''u'' = Inr u' \<and> grid_of KeyError ds' ''v'' = Inr v' \<and>
               grid_of KeyError ds' ''w'' = Inr w' \<and>
               cell u' i j = fsub (cell u i j) (bu ! j) \<and>
               cell v' i j = fsub (cell v i j) (bv ! j) \<and>
               cell w' i j = fsub (cell w i j) (bw ! j)))"
proof (intro conjI impI)
  assume "\<not> list_all (\<lambda>n. in_dataset ds n) [''bt_u'', ''bt_v'', ''bt_w'']"
  from motion_correction_bt_missing[OF this, of lg] assms
  show "\<exists>lg'. motion_correction ds lg ''bt'' = Inr (ds, lg') \<and>
                   w_count lg' = w_count lg + 1 \<and>
                   logbook lg' = logbook lg
                     @ '' Motion correction aborded. Bottom velocity (bt_u, bt_v, bt_w) missing''
                     @ newline"
    by simp
next
  let ?nd = "length (depth ds)" and ?nt = "length (time ds)"
  assume a: "wf_dataset ds \<and>
          list_all (\<lambda>n. in_dataset ds n) [''u'', ''v'', ''w'', ''bt_u'', ''bt_v'', ''bt_w''] \<and>
          i < length (depth ds) \<and> j < length (time ds)"
  then have wf: "wf_dataset ds" and ij: "i < ?nd" "j < ?nt"
    and p: "in_dataset ds ''u''" "in_dataset ds ''v''" "in_dataset ds ''w''"
      "in_dataset ds ''bt_u''" "in_dataset ds ''bt_v''" "in_dataset ds ''bt_w''"
    by simp_all
  obtain u where u: "grid_of KeyError ds ''u'' = Inr u" "has_shape ?nd ?nt u"
    using wf_grid[OF wf p(1)] by (auto simp: grid_names_def)
  obtain v where v: "grid_of KeyError ds ''v'' = Inr v" "has_shape ?nd ?nt v"
    using wf_grid[OF wf p(2)] by (auto simp: grid_names_def)
  obtain w where w: "grid_of KeyError ds ''w'' = Inr w" "has_shape ?nd ?nt w"
    using wf_grid[OF wf p(3)] by (auto simp: grid_names_def)
  obtain bu where bu: "series_of KeyError ds ''bt_u'' = Inr bu" "length bu = ?nt"
    using wf_series[OF wf p(4)] by (auto simp: series_names_def)
  obtain bv where bv: "series_of KeyError ds ''bt_v'' = Inr bv" "length bv = ?nt"
    using wf_series[OF wf p(5)] by (auto simp: series_names_def)
  obtain bw where bw: "series_of KeyError ds ''bt_w'' = Inr bw" "length bw = ?nt"
    using wf_series[OF wf p(6)] by (auto simp: series_names_def)
  let ?u' = "map (\<lambda>row. map2 fsub row bu) u"
  let ?v' = "map (\<lambda>row. map2 fsub row bv) v"
  let ?w' = "map (\<lambda>row. map2 fsub row bw) w"
  let ?lg' = "Logger_log [] False (Msg ''Motion correction carried out with bottom track'') lg"
  obtain ds' where run: "motion_correction ds lg ''bt'' = Inr (ds', ?lg')"
      "grid_of KeyError ds' ''u'' = Inr ?u'" "grid_of KeyError ds' ''v'' = Inr ?v'"
      "grid_of KeyError ds' ''w'' = Inr ?w'"
    using motion_correction_bt_run[OF u v w bu bv bw, of lg] by blast
  have c: "cell ?u' i j = fsub (cell u i j) (bu ! j)" "cell ?v' i j = fsub (cell v i j) (bv ! j)"
    "cell ?w' i j = fsub (cell w i j) (bw ! j)"
    using rows_with_run(3)[OF u(2) bu(2) ij] rows_with_run(3)[OF v(2) bv(2) ij]
      rows_with_run(3)[OF w(2) bw(2) ij] by simp_all
  have wc: "w_count ?lg' = w_count lg" by simp
  show "\<exists>u v w bu bv bw ds' lg' u' v' w'.
               grid_of KeyError ds ''u'' = Inr u \<and> grid_of KeyError ds ''v'' = Inr v \<and>
               grid_of KeyError ds ''w'' = Inr w \<and>
               series_of KeyError ds ''bt_u'' = Inr bu \<and> series_of KeyError ds ''bt_v'' = Inr bv \<and>
               series_of KeyError ds ''bt_w'' = Inr bw \<and>
               motion_correction ds lg ''bt'' = Inr (ds', lg') \<and> w_count lg' = w_count lg \<and>
               grid_of KeyError ds' ''u'' = Inr u' \<and> grid_of KeyError ds' ''v'' = Inr v' \<and>
               grid_of KeyError ds' ''w'' = Inr w' \<and>
               cell u' i j = fsub (cell u i j) (bu ! j) \<and>
               cell v' i j = fsub (cell v i j) (bv ! j) \<and>
               cell w' i j = fsub (cell w i j) (bw ! j)"
    using u(1) v(1) w(1) bu(1) bv(1) bw(1) run wc c by blast
qed

theorem motion_correction_bt_witness:
  "level (Logger_init [] 0) = 0
   \<and> \<not> list_all (\<lambda>n. in_dataset (without ''bt_w'' example_ds) n) [''bt_u'', ''bt_v'', ''bt_w'']
   \<and> (\<exists>lg'. motion_correction (without ''bt_w'' example_ds) (Logger_init [] 0) ''bt''
               = Inr (without ''bt_w'' example_ds, lg') \<and> w_count lg' = 1)
   \<and> wf_dataset example_ds
   \<and> list_all (\<lambda>n. in_dataset example_ds n) [''u'', ''v'', ''w'', ''bt_u'', ''bt_v'', ''bt_w'']
   \<and> (0::nat) < length (depth example_ds) \<and> (1::nat) < length (time example_ds)
   \<and> (\<exists>ds' lg' u'. motion_correction example_ds (Logger_init [] 0) ''bt'' = Inr (ds', lg') \<and>
         grid_of KeyError ds' ''u'' = Inr u' \<and> cell u' 0 1 = Fin 1)"
proof -
  have l0: "level (Logger_init [] 0) = 0" "w_count (Logger_init [] 0) = 0"
    by (simp_all add: Logger_init_def)
  have m: "\<not> list_all (\<lambda>n. in_dataset (without ''bt_w'' example_ds) n) [''bt_u'', ''bt_v'', ''bt_w'']"
    by (simp add: example_eval in_dataset_def)
  have h: "wf_dataset example_ds"
    "list_all (\<lambda>n. in_dataset example_ds n) [''u'', ''v'', ''w'', ''bt_u'', ''bt_v'', ''bt_w'']"
    "(0::nat) < length (depth example_ds)" "(1::nat) < length (time example_ds)"
    by (simp_all add: wf_example) (simp_all add: example_eval in_dataset_def)
  have g: "grid_of KeyError example_ds ''u'' = Inr [[Fin 1, Fin 2]]"
    "series_of KeyError example_ds ''bt_u'' = Inr [Fin 1, Fin 1]"
    by (simp_all add: example_eval grid_of_def series_of_def)
  have a: "\<exists>lg'. motion_correction (without ''bt_w'' example_ds) (Logger_init [] 0) ''bt''
               = Inr (without ''bt_w'' example_ds, lg') \<and> w_count lg' = 1"
    using motion_correction_bt[OF l0(1), of "without ''bt_w'' example_ds"] m l0(2) by auto
  have b: "\<exists>ds' lg' u'. motion_correction example_ds (Logger_init [] 0) ''bt'' = Inr (ds', lg') \<and>
         grid_of KeyError ds' ''u'' = Inr u' \<and> cell u' 0 1 = Fin 1"
    using motion_correction_bt[OF l0(1), of example_ds 0 1] h g
    by (auto simp: cell_def fsub_def)
  show ?thesis using l0(1) m a h b by blast
qed

text \<open>
  C3. The claim is that a load whose bundle reports a coordinate system other than
  \<^verbatim>\<open>beam\<close>, \<^verbatim>\<open>xyz\<close> and \<^verbatim>\<open>earth\<close> fails with \<^verbatim>\<open>CoordinateSystemError\<close>. The error
  object is built and never raised, so no bundle gets that error; a bundle that reports
  \<^verbatim>\<open>ship\<close> goes past the check and stops further down, at the unbound local
  \<^verbatim>\<open>bt_xyze\<close>, with another exception.
\<close>

theorem unknown_coordsystem_not_rejected:
  "load_coordsystem tr ship_bundle ''down'' lg = Inl UnboundLocalError
   \<and> coordsystem2earth tr data orientation \<noteq> Inl CoordinateSystemError"
  by (simp add: load_coordsystem_def coordsystem2earth_def ship_bundle_def all_zero_def Let_def
      split: option.splits)

lemmas step_eval = threshold_step_def tiled_def amp_step_def corr_step_def pg_step_def
  horizontal_step_def vertical_step_def error_step_def roll_step_def pitch_step_def

lemmas masked_eval = example_masked_def example_eval

lemma example_implausible:
  "set_implausible_vel_to_nan example_ds IMPLAUSIBLE_VEL_TRESHOLD = Inr example_masked"
  by (simp add: masked_eval array_eval dataset_eval test_eval)

lemma example_amp:
  "amp_th p = Some (Fin 30) \<Longrightarrow>
   \<exists>L T'. amp_step example_env p \<lparr>qc_dataset = example_masked, qc_l = l,
          vel_flags = [[1, 1]], vel_qc_test = T\<rparr>
    = Inr \<lparr>qc_dataset = example_masked, qc_l = L, vel_flags = [[3, 1]], vel_qc_test = T'\<rparr>"
  by (simp add: step_eval masked_eval array_eval dataset_eval test_eval)

lemma example_corr:
  "corr_th p = Some (Fin 64) \<Longrightarrow>
   \<exists>L T'. corr_step example_env p \<lparr>qc_dataset = example_masked, qc_l = l,
          vel_flags = [[3, 1]], vel_qc_test = T\<rparr>
    = Inr \<lparr>qc_dataset = example_masked, qc_l = L, vel_flags = [[3, 1]], vel_qc_test = T'\<rparr>"
  by (simp add: step_eval masked_eval array_eval dataset_eval test_eval)

lemma example_pg:
  "pg_th p = Some (Fin 90) \<Longrightarrow>
   \<exists>L T'. pg_step example_env p \<lparr>qc_dataset = example_masked, qc_l = l,
          vel_flags = [[3, 1]], vel_qc_test = T\<rparr>
    = Inr \<lparr>qc_dataset = example_masked, qc_l = L, vel_flags = [[3, 1]], vel_qc_test = T'\<rparr>"
  by (simp add: step_eval masked_eval array_eval dataset_eval test_eval)

lemma example_horizontal:
  "horizontal_vel_th p = Some (Fin 5) \<Longrightarrow>
   \<exists>L T'. horizontal_step example_env p \<lparr>qc_dataset = example_masked, qc_l = l,
          vel_flags = [[3, 1]], vel_qc_test = T\<rparr>
    = Inr \<lparr>qc_dataset = example_masked, qc_l = L, vel_flags = [[3, 3]], vel_qc_test = T'\<rparr>"
  by (simp add: step_eval masked_eval array_eval dataset_eval test_eval)

lemma example_vertical:
  "vertical_vel_th p = Some (Fin 5) \<Longrightarrow>
   \<exists>L T'. vertical_step example_env p \<lparr>qc_dataset = example_masked, qc_l = l,
          vel_flags = [[3, 3]], vel_qc_test = T\<rparr>
    = Inr \<lparr>qc_dataset = example_masked, qc_l = L, vel_flags = [[3, 3]], vel_qc_test = T'\<rparr>"
  by (simp add: step_eval masked_eval array_eval dataset_eval test_eval)

lemma example_error:
  "error_vel_th p = Some (Fin 5) \<Longrightarrow>
   \<exists>L T'. error_step example_env p \<lparr>qc_dataset = example_masked, qc_l = l,
          vel_flags = [[3, 3]], vel_qc_test = T\<rparr>
    = Inr \<lparr>qc_dataset = example_masked, qc_l = L, vel_flags = [[3, 3]], vel_qc_test = T'\<rparr>"
  by (simp add: step_eval masked_eval array_eval dataset_eval test_eval)

lemma example_roll:
  "roll_th p = Some (Fin 20) \<Longrightarrow>
   \<exists>L T'. roll_step example_env p \<lparr>qc_dataset = example_masked, qc_l = l,
          vel_flags = [[3, 3]], vel_qc_test = T\<rparr>
    = Inr \<lparr>qc_dataset = example_masked, qc_l = L, vel_flags = [[3, 3]], vel_qc_test = T'\<rparr>"
  by (simp add: step_eval masked_eval array_eval dataset_eval test_eval)

lemma example_pitch:
  "pitch_th p = Some (Fin 20) \<Longrightarrow>
   \<exists>L T'. pitch_step example_env p \<lparr>qc_dataset = example_masked, qc_l = l,
          vel_flags = [[3, 3]], vel_qc_test = T\<rparr>
    = Inr \<lparr>qc_dataset = example_masked, qc_l = L, vel_flags = [[3, 3]], vel_qc_test = T'\<rparr>"
  by (simp add: step_eval masked_eval array_eval dataset_eval test_eval)

lemma example_first_eight:
  assumes "amp_th p = Some (Fin 30)" "corr_th p = Some (Fin 64)" "pg_th p = Some (Fin 90)"
    "horizontal_vel_th p = Some (Fin 5)" "vertical_vel_th p = Some (Fin 5)"
    "error_vel_th p = Some (Fin 5)" "roll_th p = Some (Fin 20)" "pitch_th p = Some (Fin 20)"
  shows "\<exists>L T. fold_e (\<lambda>step st. step st)
            [amp_step example_env p, corr_step example_env p, pg_step example_env p,
             horizontal_step example_env p, vertical_step example_env p,
             error_step example_env p, roll_step example_env p, pitch_step example_env p]
            \<lparr>qc_dataset = example_masked, qc_l = l, vel_flags = [[1, 1]], vel_qc_test = []\<rparr>
          = Inr \<lparr>qc_dataset = example_masked, qc_l = L, vel_flags = [[3, 3]], vel_qc_test = T\<rparr>"
proof -
  obtain L1 T1 where s1: "amp_step example_env p \<lparr>qc_dataset = example_masked, qc_l = l,
          vel_flags = [[1, 1]], vel_qc_test = []\<rparr>
    = Inr \<lparr>qc_dataset = example_masked, qc_l = L1, vel_flags = [[3, 1]], vel_qc_test = T1\<rparr>"
    using example_amp[OF assms(1)] by blast
  obtain L2 T2 where s2: "corr_step example_env p \<lparr>qc_dataset = example_masked, qc_l = L1,
          vel_flags = [[3, 1]], vel_qc_test = T1\<rparr>
    = Inr \<lparr>qc_dataset = example_masked, qc_l = L2, vel_flags = [[3, 1]], vel_qc_test = T2\<rparr>"
    using example_corr[OF assms(2)] by blast
  obtain L3 T3 where s3: "pg_step example_env p \<lparr>qc_dataset = example_masked, qc_l = L2,
          vel_flags = [[3, 1]], vel_qc_test = T2\<rparr>
    = Inr \<lparr>qc_dataset = example_masked, qc_l = L3, vel_flags = [[3, 1]], vel_qc_test = T3\<rparr>"
    using example_pg[OF assms(3)] by blast
  obtain L4 T4 where s4: "horizontal_step example_env p \<lparr>qc_dataset = example_masked, qc_l = L3,
          vel_flags = [[3, 1]], vel_qc_test = T3\<rparr>
    = Inr \<lparr>qc_dataset = example_masked, qc_l = L4, vel_flags = [[3, 3]], vel_qc_test = T4\<rparr>"
    using example_horizontal[OF assms(4)] by blast
  obtain L5 T5 where s5: "vertical_step example_env p \<lparr>qc_dataset = example_masked, qc_l = L4,
          vel_flags = [[3, 3]], vel_qc_test = T4\<rparr>
    = Inr \<lparr>qc_dataset = example_masked, qc_l = L5, vel_flags = [[3, 3]], vel_qc_test = T5\<rparr>"
    using example_vertical[OF assms(5)] by blast
  obtain L6 T6 where s6: "error_step example_env p \<lparr>qc_dataset = example_masked, qc_l = L5,
          vel_flags = [[3, 3]], vel_qc_test = T5\<rparr>
    = Inr \<lparr>qc_dataset = example_masked, qc_l = L6, vel_flags = [[3, 3]], vel_qc_test = T6\<rparr>"
    using example_error[OF assms(6)] by blast
  obtain L7 T7 where s7: "roll_step example_env p \<lparr>qc_dataset = example_masked, qc_l = L6,
          vel_flags = [[3, 3]], vel_qc_test = T6\<rparr>
    = Inr \<lparr>qc_dataset = example_masked, qc_l = L7, vel_flags = [[3, 3]], vel_qc_test = T7\<rparr>"
    using example_roll[OF assms(7)] by blast
  obtain L8 T8 where s8: "pitch_step example_env p \<lparr>qc_dataset = example_masked, qc_l = L7,
          vel_flags = [[3, 3]], vel_qc_test = T7\<rparr>
    = Inr \<lparr>qc_dataset = example_masked, qc_l = L8, vel_flags = [[3, 3]], vel_qc_test = T8\<rparr>"
    using example_pitch[OF assms(8)] by blast
  show ?thesis
    by (simp add: s1 s2 s3 s4 s5 s6 s7 s8)
qed

lemma fold_e_append:
  "fold_e f (xs @ ys) s = bind_e (fold_e f xs s) (fold_e f ys)"
  by (induction xs arbitrary: s) (simp_all add: bind_e_def split: sum.splits)

lemma steps_split:
  "steps ev p =
     [amp_step ev p, corr_step ev p, pg_step ev p, horizontal_step ev p, vertical_step ev p,
      error_step ev p, roll_step ev p, pitch_step ev p]
     @ [sidelobe_step p, pres_step, temperature_step, vb_step ev p, missing_step]"
  by (simp add: steps_def)

text \<open>The sidelobe step on the example: the test returns an array of two cells.\<close>

lemma example_sidelobe_raises:
  "sidelobes_correction p \<Longrightarrow> bottom_depth p = None \<Longrightarrow>
   sidelobe_step p \<lparr>qc_dataset = example_masked, qc_l = l, vel_flags = F, vel_qc_test = T\<rparr>
     = Inl ValueError"
  by (simp add: sidelobe_step_def sidelobe_test_def sidelobe_truth_def attr_truthy_def
      num_attr_def resolve_xducer_depth_def resolve_bottom_depth_def depth_against_def
      masked_eval array_eval dataset_eval Let_def)

lemma grid_of_set_data_other:
  "m \<noteq> n \<Longrightarrow> grid_of e (set_data n d ds) m = grid_of e ds m"
  by (simp add: set_data_def grid_of_def update_conv' split: option.splits)

lemma grid_of_new_var:
  "m \<noteq> n \<Longrightarrow> grid_of e (new_var n d ds) m = grid_of e ds m"
  by (simp add: new_var_def grid_of_def update_conv')

lemma grid_of_set_vattr [simp]:
  "grid_of e (set_vattr n k a ds) m = grid_of e ds m"
  by (cases "map_of (vars ds) n")
     (auto simp: set_vattr_def grid_of_def update_conv' split: option.splits variable.splits vdata.splits)

lemma new_var_coords [simp]:
  "depth (new_var n d ds) = depth ds" "time (new_var n d ds) = time ds"
  "attrs (new_var n d ds) = attrs ds"
  by (simp_all add: new_var_def)

lemma set_vattr_coords [simp]:
  "depth (set_vattr n k a ds) = depth ds" "time (set_vattr n k a ds) = time ds"
  "attrs (set_vattr n k a ds) = attrs ds"
  by (simp_all add: set_vattr_def split: option.splits)

lemma flags_of_new_var:
  "flags_of (new_var n (I2 g) ds) m = (if m = n then Some g else flags_of ds m)"
  by (simp add: new_var_def flags_of_def update_conv')

lemma flags_of_set_vattr [simp]:
  "flags_of (set_vattr n k a ds) m = flags_of ds m"
  by (cases "map_of (vars ds) n")
     (auto simp: set_vattr_def flags_of_def update_conv' split: option.splits)

lemma flags_of_set_attr [simp]: "flags_of (set_attr k a ds) m = flags_of ds m"
  by (simp add: set_attr_def flags_of_def)

lemma map_of_stamp:
  "map_of (map (stamp_var ev) xs) n = map_option (\<lambda>v. snd (stamp_var ev (n, v))) (map_of xs n)"
  by (induction xs) (auto simp: stamp_var_def)

lemma flags_of_stamp_flags [simp]: "flags_of (stamp_flags ev ds) m = flags_of ds m"
  by (cases "map_of (vars ds) m")
     (simp_all add: stamp_flags_def flags_of_def map_of_stamp stamp_var_def)

lemma mask_set_Inr:
  assumes "mask_set m v g = Inr g'"
  shows "shape m = shape g" and "shape g' = shape g"
    and "i < length g \<Longrightarrow> j < length (g ! i) \<Longrightarrow>
         cell g' i j = (if cell m i j then v else cell g i j)"
proof -
  from assms show sh: "shape m = shape g"
    by (simp add: mask_set_def split: if_splits)
  from assms have g': "g' = zip2d (\<lambda>b x. if b then v else x) m g"
    by (simp add: mask_set_def split: if_splits)
  show "shape g' = shape g" by (simp add: g' shape_zip2d sh)
  assume ij: "i < length g" "j < length (g ! i)"
  from sh have l: "length m = length g" by (metis length_map shape_def)
  from sh ij(1) have r: "length (m ! i) = length (g ! i)"
    unfolding shape_def by (metis l nth_map)
  show "cell g' i j = (if cell m i j then v else cell g i j)"
    using ij l r by (simp add: g' cell_zip2d)
qed

lemma threshold_step_keeps:
  "threshold_step th msg entry test st = Inr st' \<Longrightarrow> keeps U V W sh st \<Longrightarrow> keeps U V W sh st'"
  by (auto simp: threshold_step_def keeps_def bind_e_Inr dest: mask_set_Inr(2)
      split: option.splits if_splits)

lemma sidelobe_step_keeps:
  "sidelobe_step p st = Inr st' \<Longrightarrow> keeps U V W sh st \<Longrightarrow> keeps U V W sh st'"
  by (auto simp: sidelobe_step_def keeps_def bind_e_Inr dest: mask_set_Inr(2)
      split: if_splits sidelobe_result.splits prod.splits)

lemma pres_step_keeps:
  "pres_step st = Inr st' \<Longrightarrow> keeps U V W sh st \<Longrightarrow> keeps U V W sh st'"
  by (auto simp: pres_step_def keeps_def bind_e_Inr Let_def grid_of_new_var dest: mask_set_Inr(2)
      split: if_splits)

lemma temperature_step_keeps:
  "temperature_step st = Inr st' \<Longrightarrow> keeps U V W sh st \<Longrightarrow> keeps U V W sh st'"
  by (auto simp: temperature_step_def keeps_def bind_e_Inr Let_def grid_of_new_var
      split: if_splits)

lemma vb_step_keeps:
  "vb_step ev p st = Inr st' \<Longrightarrow> keeps U V W sh st \<Longrightarrow> keeps U V W sh st'"
  by (auto simp: vb_step_def keeps_def bind_e_Inr Let_def grid_of_new_var
      split: if_splits)

lemma fold_e_keeps:
  assumes "\<forall>f\<in>set fs. \<forall>s s'. f s = Inr s' \<longrightarrow> P s \<longrightarrow> P s'"
  shows "fold_e (\<lambda>step st. step st) fs s = Inr s' \<Longrightarrow> P s \<Longrightarrow> P s'"
  using assms
proof (induction fs arbitrary: s)
  case Nil
  then show ?case by simp
next
  case (Cons f fs)
  from Cons.prems(1) obtain s1 where s1: "f s = Inr s1"
    "fold_e (\<lambda>step st. step st) fs s1 = Inr s'"
    by (auto simp: bind_e_Inr)
  from Cons.prems(3) s1(1) Cons.prems(2) have "P s1" by auto
  moreover from Cons.prems(3)
  have "\<forall>f\<in>set fs. \<forall>s s'. f s = Inr s' \<longrightarrow> P s \<longrightarrow> P s'" by simp
  ultimately show ?case using Cons.IH[OF s1(2)] by blast
qed

lemma before_missing_keeps:
  assumes "fold_e (\<lambda>step st. step st)
             [amp_step ev p, corr_step ev p, pg_step ev p, horizontal_step ev p,
              vertical_step ev p, error_step ev p, roll_step ev p, pitch_step ev p,
              sidelobe_step p, pres_step, temperature_step, vb_step ev p] st = Inr st'"
    and "keeps U V W sh st"
  shows "keeps U V W sh st'"
proof -
  have "\<forall>f\<in>set [amp_step ev p, corr_step ev p, pg_step ev p, horizontal_step ev p,
              vertical_step ev p, error_step ev p, roll_step ev p, pitch_step ev p,
              sidelobe_step p, pres_step, temperature_step, vb_step ev p].
          \<forall>s s'. f s = Inr s' \<longrightarrow> keeps U V W sh s \<longrightarrow> keeps U V W sh s'"
    by (auto simp: amp_step_def corr_step_def pg_step_def horizontal_step_def vertical_step_def
        error_step_def roll_step_def pitch_step_def
        dest: threshold_step_keeps sidelobe_step_keeps pres_step_keeps temperature_step_keeps
          vb_step_keeps)
  from fold_e_keeps[where P = "keeps U V W sh", OF this assms(1) assms(2)] show ?thesis .
qed

lemma example_initial_flags:
  "full (length (depth example_masked)) (length (time example_masked)) (1::int) = [[1, 1]]"
  by (simp add: masked_eval full_def)

text \<open>
  C7. The claim is that with \<^verbatim>\<open>sidelobes_correction\<close> on, a downward-looking dataset
  with beam angle, orientation, transducer depth and bottom depth gets flag 4 at the
  cells below the usable depth. \<^verbatim>\<open>adcp_quality_control\<close> tests the returned array with
  \<^verbatim>\<open>if sidelobe_flag:\<close>, and numpy refuses the truth value of an array of more than one
  element: on the example (one depth bin, two samples, default thresholds) the call
  raises ValueError at that line.
\<close>

theorem sidelobe_flag_truth_raises:
  "adcp_quality_control example_env (default_params\<lparr>sidelobes_correction := True\<rparr>) example_ds
     (Logger_init [] 0) = Inl ValueError"
proof -
  let ?p = "default_params\<lparr>sidelobes_correction := True\<rparr>"
  let ?l = "Logger_section [] False ''Quality Control'' (Logger_reset (Logger_init [] 0))"
  have th: "amp_th ?p = Some (Fin 30)" "corr_th ?p = Some (Fin 64)" "pg_th ?p = Some (Fin 90)"
    "horizontal_vel_th ?p = Some (Fin 5)" "vertical_vel_th ?p = Some (Fin 5)"
    "error_vel_th ?p = Some (Fin 5)" "roll_th ?p = Some (Fin 20)" "pitch_th ?p = Some (Fin 20)"
    by (simp_all add: default_params_def)
  have sl: "sidelobes_correction ?p" "bottom_depth ?p = None" "motion_correction_mode ?p = None"
    by (simp_all add: default_params_def)
  obtain L T where eight: "fold_e (\<lambda>step st. step st)
            [amp_step example_env ?p, corr_step example_env ?p, pg_step example_env ?p,
             horizontal_step example_env ?p, vertical_step example_env ?p,
             error_step example_env ?p, roll_step example_env ?p, pitch_step example_env ?p]
            \<lparr>qc_dataset = example_masked, qc_l = ?l, vel_flags = [[1, 1]], vel_qc_test = []\<rparr>
          = Inr \<lparr>qc_dataset = example_masked, qc_l = L, vel_flags = [[3, 3]], vel_qc_test = T\<rparr>"
    using example_first_eight[OF th, of ?l] by blast
  have "fold_e (\<lambda>step st. step st) (steps example_env ?p)
            \<lparr>qc_dataset = example_masked, qc_l = ?l, vel_flags = [[1, 1]], vel_qc_test = []\<rparr>
          = Inl ValueError"
    unfolding steps_split fold_e_append eight
    by (simp add: example_sidelobe_raises[OF sl(1) sl(2)])
  then show ?thesis
    unfolding adcp_quality_control_def run_motion_def sl(3)
    by (simp add: example_implausible example_initial_flags)
qed

lemma shape_not_finite [simp]: "shape (not_finite g) = shape g"
  by (simp add: not_finite_def)

lemma cell_not_finite:
  "has_shape nd nt g \<Longrightarrow> i < nd \<Longrightarrow> j < nt \<Longrightarrow> cell (not_finite g) i j = (\<not> isfinite (cell g i j))"
  by (simp add: not_finite_def cell_map2d has_shape_length has_shape_row)

text \<open>The final pass marks 9 where \<^verbatim>\<open>u\<close> or \<^verbatim>\<open>v\<close> is not finite; \<^verbatim>\<open>w\<close> is not read.\<close>

lemma missing_step_cell:
  assumes run: "missing_step st = Inr st'"
    and k: "keeps U V W (replicate nd nt) st"
    and ij: "i < nd" "j < nt"
  shows "qc_dataset st' = qc_dataset st" "qc_l st' = qc_l st" "vel_qc_test st' = vel_qc_test st"
    and "has_shape nd nt (vel_flags st')"
    and "has_shape nd nt U" "has_shape nd nt V"
    and "\<not> isfinite (cell U i j) \<or> \<not> isfinite (cell V i j) \<Longrightarrow> cell (vel_flags st') i j = 9"
proof -
  from k have g: "grid_of KeyError (qc_dataset st) ''u'' = Inr U"
      "grid_of KeyError (qc_dataset st) ''v'' = Inr V" "grid_of KeyError (qc_dataset st) ''w'' = Inr W"
    and sf: "shape (vel_flags st) = replicate nd nt"
    by (simp_all add: keeps_def)
  from run g obtain m vf where m: "bitwise_or3 (not_finite U) (not_finite V) (not_finite W) = Inr m"
    and vf: "mask_set m 9 (vel_flags st) = Inr vf" and st': "st' = st\<lparr>vel_flags := vf\<rparr>"
    by (auto simp: missing_step_def bind_e_Inr)
  from m have sh: "shape U = shape V" and md: "m = zip2d (\<or>) (not_finite U) (not_finite V)"
    by (simp_all add: bitwise_or3_def split: if_splits)
  from md sh have sm: "shape m = shape U" by (simp add: shape_zip2d)
  from mask_set_Inr(1)[OF vf] sf have smf: "shape m = replicate nd nt" by simp
  show "qc_dataset st' = qc_dataset st" "qc_l st' = qc_l st" "vel_qc_test st' = vel_qc_test st"
    by (simp_all add: st')
  show fl: "has_shape nd nt (vel_flags st')"
    using mask_set_Inr(2)[OF vf] sf by (simp add: st' has_shape_iff)
  show U: "has_shape nd nt U" using sm smf by (simp add: has_shape_iff)
  show V: "has_shape nd nt V" using sm smf sh by (simp add: has_shape_iff)
  assume nf: "\<not> isfinite (cell U i j) \<or> \<not> isfinite (cell V i j)"
  have f0: "has_shape nd nt (vel_flags st)" using sf by (simp add: has_shape_iff)
  have nU: "has_shape nd nt (not_finite U)" and nV: "has_shape nd nt (not_finite V)"
    using U V by (simp_all add: has_shape_iff)
  have "cell m i j = (cell (not_finite U) i j \<or> cell (not_finite V) i j)"
    unfolding md using nU nV ij by (simp add: cell_zip2d has_shape_length has_shape_row)
  then have cm: "cell m i j" using nf U V ij by (simp add: cell_not_finite)
  have "cell vf i j = (if cell m i j then 9 else cell (vel_flags st) i j)"
    using mask_set_Inr(3)[OF vf, of i j] f0 ij by (simp add: has_shape_length has_shape_row)
  then show "cell (vel_flags st') i j = 9" using cm by (simp add: st')
qed

lemma write_flags_all:
  assumes "fold_e (write_flags F T) [''u'', ''v'', ''w''] ds = Inr ds3"
  shows "flags_of ds3 ''u_QC'' = Some F \<and> flags_of ds3 ''v_QC'' = Some F \<and> flags_of ds3 ''w_QC'' = Some F"
  using assms
  by (auto simp: write_flags_def bind_e_Inr flags_of_new_var split: if_splits)

lemma finish_flags:
  assumes "finish ds lg = Inr (ds', lg')"
  shows "flags_of ds' n = flags_of ds n"
proof -
  let ?ds1 = "set_attr ''quality_comments'' (AStr (logbook lg)) ds"
  from assms obtain a where a: "get_attr ?ds1 ''logbook'' = Inr a"
    unfolding finish_def Let_def bind_e_Inr by blast
  show ?thesis
  proof (cases a)
    case (AStr old)
    with assms a show ?thesis
      unfolding finish_def Let_def by (auto simp del: Logger_log.simps)
  qed (use assms a in \<open>simp_all add: finish_def Let_def del: Logger_log.simps\<close>)
qed

lemma steps_last:
  "steps ev p =
     [amp_step ev p, corr_step ev p, pg_step ev p, horizontal_step ev p, vertical_step ev p,
      error_step ev p, roll_step ev p, pitch_step ev p, sidelobe_step p, pres_step,
      temperature_step, vb_step ev p] @ [missing_step]"
  by (simp add: steps_def)

text \<open>From the arrays the flagging starts with to the flag variables of the result.\<close>

lemma flagging_marks_missing:
  assumes steps: "fold_e (\<lambda>step st. step st) (steps ev p)
                    \<lparr>qc_dataset = ds2, qc_l = l1, vel_flags = full nd nt 1, vel_qc_test = []\<rparr> = Inr st"
    and wr: "fold_e (write_flags (vel_flags st) (vel_qc_test st)) [''u'', ''v'', ''w''] (qc_dataset st) = Inr ds3"
    and fin: "finish (stamp_flags ev ds3) (qc_l st) = Inr (ds', l')"
    and g: "grid_of KeyError ds2 ''u'' = Inr U" "grid_of KeyError ds2 ''v'' = Inr V"
      "grid_of KeyError ds2 ''w'' = Inr W"
    and ij: "i < nd" "j < nt"
    and nf: "\<not> isfinite (cell U i j) \<or> \<not> isfinite (cell V i j)"
  shows "\<exists>F. flags_of ds' ''u_QC'' = Some F \<and> flags_of ds' ''v_QC'' = Some F \<and>
             flags_of ds' ''w_QC'' = Some F \<and> cell F i j = 9"
proof -
  let ?st0 = "\<lparr>qc_dataset = ds2, qc_l = l1, vel_flags = full nd nt (1::int), vel_qc_test = []\<rparr>"
  have k0: "keeps U V W (replicate nd nt) ?st0"
    using g by (simp add: keeps_def)
  from steps obtain st12 where a: "fold_e (\<lambda>step st. step st)
             [amp_step ev p, corr_step ev p, pg_step ev p, horizontal_step ev p,
              vertical_step ev p, error_step ev p, roll_step ev p, pitch_step ev p,
              sidelobe_step p, pres_step, temperature_step, vb_step ev p] ?st0 = Inr st12"
    and b: "missing_step st12 = Inr st"
    unfolding steps_last fold_e_append by (auto simp: bind_e_Inr)
  have k12: "keeps U V W (replicate nd nt) st12"
    by (rule before_missing_keeps[OF a k0])
  have c: "cell (vel_flags st) i j = 9"
    by (rule missing_step_cell(7)[OF b k12 ij nf])
  from write_flags_all[OF wr] finish_flags[OF fin]
  have "flags_of ds' ''u_QC'' = Some (vel_flags st) \<and> flags_of ds' ''v_QC'' = Some (vel_flags st)
        \<and> flags_of ds' ''w_QC'' = Some (vel_flags st)"
    by simp
  with c show ?thesis by blast
qed

lemma void_kept_refl: "void_kept nd nt ds ds"
  by (auto simp: void_kept_def)

lemma void_kept_trans:
  assumes "void_kept nd nt a b" "void_kept nd nt b c"
  shows "void_kept nd nt a c"
  unfolding void_kept_def
proof (intro conjI allI impI)
  show "depth c = depth a" "time c = time a"
    using assms by (simp_all add: void_kept_def)
next
  fix n g
  assume n: "n \<in> {''u'', ''v'', ''w''}" and g: "grid_of KeyError a n = Inr g" "has_shape nd nt g"
  from assms(1) n g obtain g1 where g1: "grid_of KeyError b n = Inr g1" "has_shape nd nt g1"
      "\<forall>i<nd. \<forall>j<nt. \<not> isfinite (cell g i j) \<longrightarrow> \<not> isfinite (cell g1 i j)"
    unfolding void_kept_def by blast
  from assms(2) n g1(1,2) obtain g2 where g2: "grid_of KeyError c n = Inr g2" "has_shape nd nt g2"
      "\<forall>i<nd. \<forall>j<nt. \<not> isfinite (cell g1 i j) \<longrightarrow> \<not> isfinite (cell g2 i j)"
    unfolding void_kept_def by blast
  from g1(3) g2(3) have "\<forall>i<nd. \<forall>j<nt. \<not> isfinite (cell g i j) \<longrightarrow> \<not> isfinite (cell g2 i j)"
    by blast
  with g2(1,2) show "\<exists>g'. grid_of KeyError c n = Inr g' \<and> has_shape nd nt g' \<and>
               (\<forall>i<nd. \<forall>j<nt. \<not> isfinite (cell g i j) \<longrightarrow> \<not> isfinite (cell g' i j))"
    by blast
qed

lemma void_kept_set_data:
  assumes g: "grid_of KeyError ds c = Inr g"
    and ok: "has_shape nd nt g \<Longrightarrow> has_shape nd nt g' \<and>
               (\<forall>i<nd. \<forall>j<nt. \<not> isfinite (cell g i j) \<longrightarrow> \<not> isfinite (cell g' i j))"
  shows "void_kept nd nt ds (set_data c (D2 g') ds)"
  unfolding void_kept_def
proof (intro conjI allI impI)
  fix n h
  assume n: "n \<in> {''u'', ''v'', ''w''}" and h: "grid_of KeyError ds n = Inr h" "has_shape nd nt h"
  show "\<exists>g'a. grid_of KeyError (set_data c (D2 g') ds) n = Inr g'a \<and> has_shape nd nt g'a \<and>
               (\<forall>i<nd. \<forall>j<nt. \<not> isfinite (cell h i j) \<longrightarrow> \<not> isfinite (cell g'a i j))"
  proof (cases "n = c")
    case True
    with g h have "h = g" by simp
    with ok h(2) True show ?thesis by (simp add: grid_of_set_data[OF g])
  next
    case False
    with h show ?thesis by (simp add: grid_of_set_data_other)
  qed
qed simp_all

lemma void_kept_set_other:
  assumes "c \<notin> {''u'', ''v'', ''w''}"
  shows "void_kept nd nt ds (set_data c d ds)"
  using assms by (auto simp: void_kept_def grid_of_set_data_other)

lemma rows_with_void:
  assumes r: "rows_with f g xs = Inr g'"
    and f: "\<And>a b. \<not> isfinite a \<Longrightarrow> \<not> isfinite (f a b)"
    and s: "has_shape nd nt g"
  shows "has_shape nd nt g' \<and>
         (\<forall>i<nd. \<forall>j<nt. \<not> isfinite (cell g i j) \<longrightarrow> \<not> isfinite (cell g' i j))"
proof -
  from r have la: "list_all (\<lambda>row. length row = length xs) g"
    and g': "g' = map (\<lambda>row. map2 f row xs) g"
    by (simp_all add: rows_with_def split: if_splits)
  have sh: "has_shape nd nt g'"
    using s la unfolding g' by (auto simp: has_shape_def list_all_iff)
  have "\<not> isfinite (cell g' i j)" if ij: "i < nd" "j < nt" and n: "\<not> isfinite (cell g i j)" for i j
  proof -
    from s ij have li: "i < length g" and lr: "length (g ! i) = nt"
      by (simp_all add: has_shape_length has_shape_row)
    from la li have "length (g ! i) = length xs" by (simp add: list_all_length)
    with lr ij have "cell g' i j = f (cell g i j) (xs ! j)"
      using li by (simp add: g' cell_def)
    with f[OF n] show ?thesis by simp
  qed
  with sh show ?thesis by blast
qed

lemma fadd_void: "\<not> isfinite a \<Longrightarrow> \<not> isfinite (fadd a b)"
  by (cases a; cases b) simp_all

lemma fsub_void: "\<not> isfinite a \<Longrightarrow> \<not> isfinite (fsub a b)"
  by (simp add: fsub_def fadd_void)

lemma bt_correct_void:
  assumes "bt_correct c ds = Inr ds'"
  shows "void_kept nd nt ds ds'"
proof -
  from assms obtain g bt g' where g: "grid_of KeyError ds c = Inr g"
    and r: "rows_with fsub g bt = Inr g'" and d: "ds' = set_data c (D2 g') ds"
    by (auto simp: bt_correct_def bind_e_Inr)
  show ?thesis unfolding d
    by (rule void_kept_set_data[OF g]) (rule rows_with_void[OF r fsub_void])
qed

lemma nav_correct_void:
  assumes "nav_correct c (ds, lg) = Inr (ds', lg')" "c \<in> {''u'', ''v''}"
  shows "void_kept nd nt ds ds'"
proof -
  from assms(1) obtain g ship0 g' where g: "grid_of KeyError ds c = Inr g"
    and r: "rows_with fadd g ship0 = Inr g'"
    and rest: "(let ds1 = set_data c (D2 g') ds in
      case map_of (vars ds1) (c @ ''ship'') of
        None \<Rightarrow> Inl KeyError
      | Some v \<Rightarrow>
          (case vdata v of
             D2 old \<Rightarrow>
               if shape old = shape g'
               then Inr (set_data (c @ ''ship'') (D2 g') ds1,
                         Logger_log [] False (Msg ''Motion correction carried out with navigation'') lg)
               else Inl ValueError
           | D1 xs \<Rightarrow> Inl ValueError
           | I2 old \<Rightarrow> Inl ValueError)) = Inr (ds', lg')"
    unfolding nav_correct_def prod.case bind_e_Inr by blast
  from rest have d: "ds' = set_data (c @ ''ship'') (D2 g') (set_data c (D2 g') ds)"
    by (auto simp: Let_def simp del: Logger_log.simps split: option.splits vdata.splits if_splits)
  have 1: "void_kept nd nt ds (set_data c (D2 g') ds)"
    by (rule void_kept_set_data[OF g]) (rule rows_with_void[OF r fadd_void])
  have "c @ ''ship'' \<notin> {''u'', ''v'', ''w''}" using assms(2) by auto
  then have 2: "void_kept nd nt (set_data c (D2 g') ds) ds'"
    unfolding d by (rule void_kept_set_other)
  from void_kept_trans[OF 1 2] show ?thesis .
qed

lemma motion_correction_void:
  assumes "motion_correction ds lg mode = Inr (ds', lg')"
  shows "void_kept nd nt ds ds'"
proof (cases "mode = ''bt''")
  case True
  show ?thesis
  proof (cases "list_all (\<lambda>v. in_dataset ds (''bt_'' @ v)) [''u'', ''v'', ''w'']")
    case p: True
    from assms True p obtain d1 d2 where "bt_correct ''u'' ds = Inr d1" "bt_correct ''v'' d1 = Inr d2"
      "bt_correct ''w'' d2 = Inr ds'"
      by (auto simp: motion_correction_def bind_e_Inr)
    then show ?thesis
      by (blast intro: void_kept_trans bt_correct_void)
  next
    case False
    with assms True have "ds' = ds" by (auto simp: motion_correction_def)
    then show ?thesis by (simp add: void_kept_refl)
  qed
next
  case nbt: False
  show ?thesis
  proof (cases "mode = ''nav'' \<and> list_all (\<lambda>v. in_dataset ds (v @ ''_ship'')) [''u'', ''v'']")
    case True
    with assms nbt obtain d1 l1 where "nav_correct ''u'' (ds, lg) = Inr (d1, l1)"
      "nav_correct ''v'' (d1, l1) = Inr (ds', lg')"
      by (auto simp: motion_correction_def bind_e_Inr)
    then show ?thesis
      by (blast intro: void_kept_trans nav_correct_void)
  next
    case False
    with assms nbt have "ds' = ds" by (auto simp: motion_correction_def split: if_splits)
    then show ?thesis by (simp add: void_kept_refl)
  qed
qed

lemma run_motion_void:
  assumes "run_motion p ds lg = Inr (ds', lg')"
  shows "void_kept nd nt ds ds'"
  using assms
  by (auto simp: run_motion_def void_kept_refl motion_correction_void
      split: option.splits if_splits)

lemma attrs_stamp_flags [simp]: "attrs (stamp_flags ev ds) = attrs ds"
  "depth (stamp_flags ev ds) = depth ds" "time (stamp_flags ev ds) = time ds"
  by (simp_all add: stamp_flags_def)

lemma example_rest_off:
  "\<not> sidelobes_correction p \<Longrightarrow>
   sidelobe_step p \<lparr>qc_dataset = example_masked, qc_l = l, vel_flags = F, vel_qc_test = T\<rparr>
     = Inr \<lparr>qc_dataset = example_masked, qc_l = l, vel_flags = F, vel_qc_test = T\<rparr>"
  "pres_step \<lparr>qc_dataset = example_masked, qc_l = l, vel_flags = F, vel_qc_test = T\<rparr>
     = Inr \<lparr>qc_dataset = example_masked, qc_l = l, vel_flags = F, vel_qc_test = T\<rparr>"
  "temperature_step \<lparr>qc_dataset = example_masked, qc_l = l, vel_flags = F, vel_qc_test = T\<rparr>
     = Inr \<lparr>qc_dataset = example_masked, qc_l = l, vel_flags = F, vel_qc_test = T\<rparr>"
  by (simp_all add: sidelobe_step_def pres_step_def temperature_step_def masked_eval in_dataset_def)

text \<open>The fifth-beam step on the example: the flag variable holds 3 and 0.\<close>

lemma example_vb:
  assumes "amp_th p = Some (Fin 30)" "corr_th p = Some (Fin 64)" "pg_th p = Some (Fin 90)"
  shows "\<exists>X L. vb_step example_env p
            \<lparr>qc_dataset = example_masked, qc_l = l, vel_flags = F, vel_qc_test = T\<rparr>
          = Inr \<lparr>qc_dataset = set_vattr ''vb_vel_QC'' ''quality_test'' (AStr X)
                                (new_var ''vb_vel_QC'' (I2 [[3, 0]]) example_masked),
                 qc_l = L, vel_flags = F, vel_qc_test = T\<rparr>"
proof -
  have t: "vertical_beam_test example_masked (amp_th p) (corr_th p) (pg_th p) = Inr [[True, False]]"
    unfolding assms
    by (simp add: vertical_beam_test_def vb_channel_def masked_eval array_eval dataset_eval below_def)
  have i: "in_dataset example_masked ''vb_vel''"
    "has_shape (length (depth example_masked)) (length (time example_masked)) [[True, False]]"
    "times3 [[True, False]] = [[3, 0]]"
    by (simp_all add: masked_eval in_dataset_def has_shape_def times3_def map2d_def)
  show ?thesis
    unfolding vb_step_def Let_def
    by (simp add: t i del: Logger_log.simps) blast
qed

lemma example_missing:
  "missing_step \<lparr>qc_dataset = set_vattr ''vb_vel_QC'' ''quality_test'' (AStr X)
                                (new_var ''vb_vel_QC'' (I2 [[3, 0]]) example_masked),
                 qc_l = L, vel_flags = [[3, 3]], vel_qc_test = T\<rparr>
     = Inr \<lparr>qc_dataset = set_vattr ''vb_vel_QC'' ''quality_test'' (AStr X)
                                (new_var ''vb_vel_QC'' (I2 [[3, 0]]) example_masked),
                 qc_l = L, vel_flags = [[3, 9]], vel_qc_test = T\<rparr>"
proof -
  have g: "grid_of KeyError example_masked ''u'' = Inr [[Fin 1, NaN]]"
    "grid_of KeyError example_masked ''v'' = Inr [[Fin 0, NaN]]"
    "grid_of KeyError example_masked ''w'' = Inr [[Fin 0, NaN]]"
    by (simp_all add: masked_eval grid_of_def)
  show ?thesis
    by (simp add: missing_step_def grid_of_new_var g not_finite_def bitwise_or3_def array_eval)
qed

lemma finish_returns:
  assumes "map_of (attrs ds) ''logbook'' = Some (AStr old)"
  shows "\<exists>ds' l'. finish ds lg = Inr (ds', l')"
  using assms
  by (simp add: finish_def Let_def get_attr_def set_attr_def update_conv' del: Logger_log.simps)

lemma example_masked_facts:
  "length (depth example_masked) = 1" "length (time example_masked) = 2"
  "map_of (attrs example_masked) ''logbook'' = Some (AStr ''[Loading RDI]'')"
  by (simp_all add: masked_eval)

lemma example_run:
  "\<exists>ds' l'. adcp_quality_control example_env default_params example_ds (Logger_init [] 0) = Inr (ds', l')
     \<and> flags_of ds' ''u_QC'' = Some [[3, 9]] \<and> flags_of ds' ''v_QC'' = Some [[3, 9]]
     \<and> flags_of ds' ''w_QC'' = Some [[3, 9]] \<and> flags_of ds' ''vb_vel_QC'' = Some [[3, 0]]"
proof -
  let ?p = "default_params"
  let ?l = "Logger_section [] False ''Quality Control'' (Logger_reset (Logger_init [] 0))"
  have th: "amp_th ?p = Some (Fin 30)" "corr_th ?p = Some (Fin 64)" "pg_th ?p = Some (Fin 90)"
    "horizontal_vel_th ?p = Some (Fin 5)" "vertical_vel_th ?p = Some (Fin 5)"
    "error_vel_th ?p = Some (Fin 5)" "roll_th ?p = Some (Fin 20)" "pitch_th ?p = Some (Fin 20)"
    by (simp_all add: default_params_def)
  have sl: "\<not> sidelobes_correction ?p" "motion_correction_mode ?p = None"
    by (simp_all add: default_params_def)
  obtain L T where eight: "fold_e (\<lambda>step st. step st)
            [amp_step example_env ?p, corr_step example_env ?p, pg_step example_env ?p,
             horizontal_step example_env ?p, vertical_step example_env ?p,
             error_step example_env ?p, roll_step example_env ?p, pitch_step example_env ?p]
            \<lparr>qc_dataset = example_masked, qc_l = ?l, vel_flags = [[1, 1]], vel_qc_test = []\<rparr>
          = Inr \<lparr>qc_dataset = example_masked, qc_l = L, vel_flags = [[3, 3]], vel_qc_test = T\<rparr>"
    using example_first_eight[OF th, of ?l] by blast
  obtain X L' where vb: "vb_step example_env ?p
            \<lparr>qc_dataset = example_masked, qc_l = L, vel_flags = [[3, 3]], vel_qc_test = T\<rparr>
          = Inr \<lparr>qc_dataset = set_vattr ''vb_vel_QC'' ''quality_test'' (AStr X)
                                (new_var ''vb_vel_QC'' (I2 [[3, 0]]) example_masked),
                 qc_l = L', vel_flags = [[3, 3]], vel_qc_test = T\<rparr>"
    using example_vb[OF th(1,2,3), of L "[[3, 3]]" T] by blast
  let ?D = "set_vattr ''vb_vel_QC'' ''quality_test'' (AStr X)
              (new_var ''vb_vel_QC'' (I2 [[3, 0]]) example_masked)"
  have steps: "fold_e (\<lambda>step st. step st) (steps example_env ?p)
            \<lparr>qc_dataset = example_masked, qc_l = ?l, vel_flags = [[1, 1]], vel_qc_test = []\<rparr>
          = Inr \<lparr>qc_dataset = ?D, qc_l = L', vel_flags = [[3, 9]], vel_qc_test = T\<rparr>"
    unfolding steps_split fold_e_append eight
    by (simp add: example_rest_off(1)[OF sl(1)] example_rest_off(2,3) vb example_missing)
  obtain ds3 where wr: "fold_e (write_flags [[3, 9]] T) [''u'', ''v'', ''w''] ?D = Inr ds3"
    and a3: "attrs ds3 = attrs example_masked"
    and v3: "flags_of ds3 ''vb_vel_QC'' = Some [[3, 0]]"
    by (simp add: write_flags_def has_shape_def example_masked_facts flags_of_new_var)
  from write_flags_all[OF wr]
  have u3: "flags_of ds3 ''u_QC'' = Some [[3, 9]]" "flags_of ds3 ''v_QC'' = Some [[3, 9]]"
    "flags_of ds3 ''w_QC'' = Some [[3, 9]]" by simp_all
  obtain ds' l' where fin: "finish (stamp_flags example_env ds3) L' = Inr (ds', l')"
    using finish_returns[of "stamp_flags example_env ds3" "''[Loading RDI]''" L']
    by (auto simp: a3 example_masked_facts)
  have run: "adcp_quality_control example_env ?p example_ds (Logger_init [] 0) = Inr (ds', l')"
    unfolding adcp_quality_control_def run_motion_def sl(2)
    by (simp add: example_implausible example_initial_flags steps wr fin del: fold_e.simps)
  show ?thesis
    using run finish_flags[OF fin] u3 v3 by auto
qed

text \<open>
  C4. The claim is that \<^verbatim>\<open>vb_vel_QC\<close> holds 3 where the fifth-beam test fails and 1
  elsewhere. The variable is written as \<^verbatim>\<open>vb_flag * 3\<close>, a boolean array times three,
  which is 0 where the test passes: on the example, whose second sample passes the
  fifth-beam test, the flag written there is 0 (the code of \<^verbatim>\<open>no_quality_control\<close>),
  while the velocity, pressure and temperature flags all start from an array of ones.
\<close>

theorem fifth_beam_passing_cell_flag_zero:
  "qc_flags (adcp_quality_control example_env default_params example_ds (Logger_init [] 0))
     ''vb_vel_QC'' = Some [[3, 0]]"
  using example_run by (auto simp: qc_flags_def)

lemma wf_grid_shape:
  assumes "wf_dataset ds" "grid_of e ds n = Inr g" "n \<in> set grid_names"
  shows "has_shape (length (depth ds)) (length (time ds)) g"
proof -
  from grid_of_Inr_lookup[OF assms(2)] have "in_dataset ds n"
    by (auto simp: in_dataset_def)
  from wf_grid[OF assms(1) this assms(3), of e] assms(2) show ?thesis by simp
qed

text \<open>
  C1. When \<^verbatim>\<open>adcp_quality_control\<close> returns, every depth/time cell at which \<^verbatim>\<open>u\<close>,
  \<^verbatim>\<open>v\<close> or \<^verbatim>\<open>w\<close> of the dataset it was given is not finite has flag 9 in the one grid
  written to \<^verbatim>\<open>u_QC\<close>, \<^verbatim>\<open>v_QC\<close> and \<^verbatim>\<open>w_QC\<close>, whatever the tests before flagged
  there. The final pass reads \<^verbatim>\<open>u\<close> and \<^verbatim>\<open>v\<close> only; a cell where \<^verbatim>\<open>w\<close> alone is not
  finite is covered because \<^verbatim>\<open>set_implausible_vel_to_nan\<close> has made the three
  components not-a-number there.
\<close>

theorem missing_value_flag_wins:
  assumes wf: "wf_dataset ds"
    and ret: "returns (adcp_quality_control ev p ds l)"
    and g: "grid_of KeyError ds ''u'' = Inr u" "grid_of KeyError ds ''v'' = Inr v"
      "grid_of KeyError ds ''w'' = Inr w"
    and ij: "i < length (depth ds)" "j < length (time ds)"
    and nf: "\<not> isfinite (cell u i j) \<or> \<not> isfinite (cell v i j) \<or> \<not> isfinite (cell w i j)"
  shows "\<exists>F. qc_flags (adcp_quality_control ev p ds l) ''u_QC'' = Some F \<and>
             qc_flags (adcp_quality_control ev p ds l) ''v_QC'' = Some F \<and>
             qc_flags (adcp_quality_control ev p ds l) ''w_QC'' = Some F \<and> cell F i j = 9"
proof -
  let ?nd = "length (depth ds)" and ?nt = "length (time ds)"
  from ret obtain ds' l' where run: "adcp_quality_control ev p ds l = Inr (ds', l')"
    by (cases "adcp_quality_control ev p ds l") (auto simp: returns_def)
  from run obtain ds1 l1 ds2 st ds3 where
    m: "run_motion p ds (Logger_section [] False ''Quality Control'' (Logger_reset l)) = Inr (ds1, l1)"
    and s: "set_implausible_vel_to_nan ds1 IMPLAUSIBLE_VEL_TRESHOLD = Inr ds2"
    and f: "fold_e (\<lambda>step st. step st) (steps ev p)
              \<lparr>qc_dataset = ds2, qc_l = l1,
               vel_flags = full (length (depth ds2)) (length (time ds2)) 1,
               vel_qc_test = []\<rparr> = Inr st"
    and w: "fold_e (write_flags (vel_flags st) (vel_qc_test st)) [''u'', ''v'', ''w'']
              (qc_dataset st) = Inr ds3"
    and fin: "finish (stamp_flags ev ds3) (qc_l st) = Inr (ds', l')"
    by (auto simp: adcp_quality_control_def bind_e_Inr simp del: fold_e.simps)
  have sh: "has_shape ?nd ?nt u" "has_shape ?nd ?nt v" "has_shape ?nd ?nt w"
    using wf_grid_shape[OF wf g(1)] wf_grid_shape[OF wf g(2)] wf_grid_shape[OF wf g(3)]
    by (simp_all add: grid_names_def)
  have vk: "void_kept ?nd ?nt ds ds1" by (rule run_motion_void[OF m])
  then have c1: "depth ds1 = depth ds" "time ds1 = time ds"
    by (simp_all add: void_kept_def)
  from vk g(1) sh(1) obtain u1 where u1: "grid_of KeyError ds1 ''u'' = Inr u1" "has_shape ?nd ?nt u1"
    "\<forall>i<?nd. \<forall>j<?nt. \<not> isfinite (cell u i j) \<longrightarrow> \<not> isfinite (cell u1 i j)"
    unfolding void_kept_def by blast
  from vk g(2) sh(2) obtain v1 where v1: "grid_of KeyError ds1 ''v'' = Inr v1" "has_shape ?nd ?nt v1"
    "\<forall>i<?nd. \<forall>j<?nt. \<not> isfinite (cell v i j) \<longrightarrow> \<not> isfinite (cell v1 i j)"
    unfolding void_kept_def by blast
  from vk g(3) sh(3) obtain w1 where w1: "grid_of KeyError ds1 ''w'' = Inr w1" "has_shape ?nd ?nt w1"
    "\<forall>i<?nd. \<forall>j<?nt. \<not> isfinite (cell w i j) \<longrightarrow> \<not> isfinite (cell w1 i j)"
    unfolding void_kept_def by blast
  from nf u1(3) v1(3) w1(3) ij
  have nf1: "\<not> isfinite (cell u1 i j) \<or> \<not> isfinite (cell v1 i j) \<or> \<not> isfinite (cell w1 i j)"
    by blast
  obtain d2 u2 v2 w2 where r2: "set_implausible_vel_to_nan ds1 IMPLAUSIBLE_VEL_TRESHOLD = Inr d2"
    and g2: "grid_of KeyError d2 ''u'' = Inr u2" "grid_of KeyError d2 ''v'' = Inr v2"
      "grid_of KeyError d2 ''w'' = Inr w2"
    and c2: "depth d2 = depth ds1" "time d2 = time ds1"
    and cells: "\<forall>i j. i < ?nd \<longrightarrow> j < ?nt \<longrightarrow>
                (if plausible_at IMPLAUSIBLE_VEL_TRESHOLD (cell u1 i j)
                    \<and> plausible_at IMPLAUSIBLE_VEL_TRESHOLD (cell v1 i j)
                    \<and> plausible_at IMPLAUSIBLE_VEL_TRESHOLD (cell w1 i j)
                 then cell u2 i j = cell u1 i j \<and> cell v2 i j = cell v1 i j \<and> cell w2 i j = cell w1 i j
                 else cell u2 i j = NaN \<and> cell v2 i j = NaN \<and> cell w2 i j = NaN)"
    using set_implausible_run[OF u1(1) v1(1) w1(1) u1(2) v1(2) w1(2), of IMPLAUSIBLE_VEL_TRESHOLD]
    by blast
  from r2 s have d2: "d2 = ds2" by simp
  from nf1 have "\<not> (plausible_at IMPLAUSIBLE_VEL_TRESHOLD (cell u1 i j)
                    \<and> plausible_at IMPLAUSIBLE_VEL_TRESHOLD (cell v1 i j)
                    \<and> plausible_at IMPLAUSIBLE_VEL_TRESHOLD (cell w1 i j))"
    using plausible_at_finite by blast
  with cells ij have "cell u2 i j = NaN" by auto
  then have nf2: "\<not> isfinite (cell u2 i j) \<or> \<not> isfinite (cell v2 i j)" by simp
  have dims: "length (depth ds2) = ?nd" "length (time ds2) = ?nt"
    using c1 c2 d2 by simp_all
  from flagging_marks_missing[OF f[unfolded dims] w fin g2[unfolded d2] ij nf2]
  show ?thesis by (simp add: run qc_flags_def)
qed

theorem missing_value_flag_wins_witness:
  "wf_dataset example_ds
   \<and> returns (adcp_quality_control example_env default_params example_ds (Logger_init [] 0))
   \<and> grid_of KeyError example_ds ''u'' = Inr [[Fin 1, Fin 2]]
   \<and> grid_of KeyError example_ds ''v'' = Inr [[Fin 0, Fin 0]]
   \<and> grid_of KeyError example_ds ''w'' = Inr [[Fin 0, NaN]]
   \<and> (0::nat) < length (depth example_ds) \<and> (1::nat) < length (time example_ds)
   \<and> isfinite (cell [[Fin 1, Fin 2]] 0 1) \<and> isfinite (cell [[Fin 0, Fin 0]] 0 1)
   \<and> \<not> isfinite (cell [[Fin 0, NaN]] 0 1)
   \<and> (\<exists>F. qc_flags (adcp_quality_control example_env default_params example_ds (Logger_init [] 0))
              ''u_QC'' = Some F \<and>
            qc_flags (adcp_quality_control example_env default_params example_ds (Logger_init [] 0))
              ''w_QC'' = Some F \<and> cell F 0 1 = 9)"
proof -
  have wf: "wf_dataset example_ds" by (rule wf_example)
  have ret: "returns (adcp_quality_control example_env default_params example_ds (Logger_init [] 0))"
    using example_run by (auto simp: returns_def)
  have g: "grid_of KeyError example_ds ''u'' = Inr [[Fin 1, Fin 2]]"
    "grid_of KeyError example_ds ''v'' = Inr [[Fin 0, Fin 0]]"
    "grid_of KeyError example_ds ''w'' = Inr [[Fin 0, NaN]]"
    by (simp_all add: example_eval grid_of_def)
  have ij: "(0::nat) < length (depth example_ds)" "(1::nat) < length (time example_ds)"
    by (simp_all add: example_eval)
  have c: "isfinite (cell [[Fin 1, Fin 2]] 0 1)" "isfinite (cell [[Fin 0, Fin 0]] 0 1)"
    "\<not> isfinite (cell [[Fin 0, NaN]] 0 1)"
    by (simp_all add: cell_def)
  from c(3) have nf: "\<not> isfinite (cell [[Fin 1, Fin 2]] 0 1) \<or> \<not> isfinite (cell [[Fin 0, Fin 0]] 0 1)
      \<or> \<not> isfinite (cell [[Fin 0, NaN]] 0 1)" by simp
  from missing_value_flag_wins[OF wf ret g ij nf]
  have "\<exists>F. qc_flags (adcp_quality_control example_env default_params example_ds (Logger_init [] 0))
              ''u_QC'' = Some F \<and>
            qc_flags (adcp_quality_control example_env default_params example_ds (Logger_init [] 0))
              ''w_QC'' = Some F \<and> cell F 0 1 = 9"
    by blast
  with wf ret g ij c show ?thesis by blast
qed

end
